theory Spec2Isabelle
  imports Main
begin

section \<open>Go values used by the Linode provider\<close>

text \<open>
  The provider lives in \<^verbatim>\<open>spread/linode.go\<close>. A Go \<^verbatim>\<open>string\<close> is a sequence of
  bytes, modelled as \<^typ>\<open>string\<close>; a Go \<^verbatim>\<open>int\<close> holds identifiers decoded from JSON
  and is only compared and printed, never computed with, so it is modelled as \<^typ>\<open>int\<close>.
  The calls that write to the log (\<^verbatim>\<open>log\<close>, \<^verbatim>\<open>logf\<close>, \<^verbatim>\<open>printf\<close>, \<^verbatim>\<open>debugf\<close>) change nothing
  that is modelled and are left out.
\<close>

subsection \<open>Library functions on strings\<close>

definition asciiLower :: "char \<Rightarrow> char" where
  "asciiLower c =
     (let n = (of_char c :: nat) in if 65 \<le> n \<and> n \<le> 90 then char_of (n + 32) else c)"

text \<open>
  The second byte of the UTF-8 form of an upper-case letter of the Latin-1 Supplement:
  U+00C0 to U+00DE without the multiplication sign U+00D7, all with first byte 0xC3.
\<close>

definition latin1UpperTail :: "char \<Rightarrow> bool" where
  "latin1UpperTail d = (let n = (of_char d :: nat) in 128 \<le> n \<and> n \<le> 158 \<and> n \<noteq> 151)"

text \<open>
  \<^verbatim>\<open>strings.ToLower\<close> on UTF-8 text. It is Go's function on every text of code points
  up to U+00FF (ASCII and the Latin-1 Supplement). The Unicode case tables beyond
  U+00FF are not part of the model: a code point above U+00FF is left as it is here.
\<close>

fun strings_ToLower :: "string \<Rightarrow> string" where
  "strings_ToLower (c # d # cs) =
     (if (of_char c :: nat) = 195 \<and> latin1UpperTail d
      then c # char_of ((of_char d :: nat) + 32) # strings_ToLower cs
      else asciiLower c # strings_ToLower (d # cs))"
| "strings_ToLower [c] = [asciiLower c]"
| "strings_ToLower [] = []"

text \<open>
  The conversion \<^verbatim>\<open>string(b)\<close> of one byte \<^verbatim>\<open>b\<close>: Go reads the byte as a code point
  and yields its UTF-8 form, which has two bytes from 0x80 on.
\<close>

definition string_of_byte :: "char \<Rightarrow> string" where
  "string_of_byte b =
     (let n = (of_char b :: nat)
      in if n < 128 then [b] else [char_of (192 + n div 64), char_of (128 + n mod 64)])"

text \<open>\<^verbatim>\<open>strings.ToLower(string(msg[0])) + msg[1:]\<close> for a message known to be non-empty.\<close>

definition lowerFirst :: "char \<Rightarrow> string \<Rightarrow> string" where
  "lowerFirst c cs = strings_ToLower (string_of_byte c) @ cs"

text \<open>
  The white space of \<^verbatim>\<open>unicode.IsSpace\<close> in UTF-8: the six ASCII characters, U+0085 and
  U+00A0 (0xC2 0x85, 0xC2 0xA0), U+1680 (0xE1 0x9A 0x80), U+2000 to U+200A, U+2028,
  U+2029 and U+202F (0xE2 0x80 and a third byte), U+205F (0xE2 0x81 0x9F) and U+3000
  (0xE3 0x80 0x80). \<open>spaceWidth s\<close> is the number of bytes of the white-space character
  at the head of \<open>s\<close>, and 0 when \<open>s\<close> does not start with one.
\<close>

definition spaceWidth :: "string \<Rightarrow> nat" where
  "spaceWidth s =
     (case map of_char (take 3 s) :: nat list of
        [] \<Rightarrow> 0
      | c # rest \<Rightarrow>
          if c = 9 \<or> c = 10 \<or> c = 11 \<or> c = 12 \<or> c = 13 \<or> c = 32 then 1
          else (case rest of
                  [] \<Rightarrow> 0
                | d # rest2 \<Rightarrow>
                    if c = 194 \<and> (d = 133 \<or> d = 160) then 2
                    else (case rest2 of
                            [] \<Rightarrow> 0
                          | e # rest3 \<Rightarrow>
                              if (c = 225 \<and> d = 154 \<and> e = 128) \<or>
                                 (c = 226 \<and> d = 128 \<and>
                                    (128 \<le> e \<and> e \<le> 138 \<or> e = 168 \<or> e = 169 \<or> e = 175)) \<or>
                                 (c = 226 \<and> d = 129 \<and> e = 159) \<or>
                                 (c = 227 \<and> d = 128 \<and> e = 128)
                              then 3 else 0)))"

text \<open>
  \<^verbatim>\<open>strings.Fields\<close>: the maximal runs of bytes between white-space characters. No
  white-space character starts inside another character, and Go reads a byte that
  belongs to no well-formed character as one character that is not white space, so the
  split can go byte by byte. In the loop \<open>skip\<close> counts the bytes still to pass of the
  white-space character being read, and \<open>w\<close> is the word being read.
\<close>

fun fieldsFrom :: "string \<Rightarrow> nat \<Rightarrow> string \<Rightarrow> string list" where
  "fieldsFrom [] skip w = (if w = [] then [] else [w])"
| "fieldsFrom (c # cs) skip w =
     (if skip > 0 then fieldsFrom cs (skip - 1) w
      else if spaceWidth (c # cs) > 0
      then (if w = [] then [] else [w]) @ fieldsFrom cs (spaceWidth (c # cs) - 1) []
      else fieldsFrom cs 0 (w @ [c]))"

definition strings_Fields :: "string \<Rightarrow> string list" where
  "strings_Fields s = fieldsFrom s 0 []"

definition strings_HasPrefix :: "string \<Rightarrow> string \<Rightarrow> bool" where
  "strings_HasPrefix s p = (take (length p) s = p)"

text \<open>\<^verbatim>\<open>strconv.Itoa\<close>, which is also what the verb \<^verbatim>\<open>%d\<close> prints.\<close>

fun digits :: "nat \<Rightarrow> string" where
  "digits n = (if n < 10 then [char_of (48 + n)] else digits (n div 10) @ [char_of (48 + n mod 10)])"

definition strconv_Itoa :: "int \<Rightarrow> string" where
  "strconv_Itoa i = (if i < 0 then CHR ''-'' # digits (nat (- i)) else digits (nat i))"

subsection \<open>Errors and panics\<close>

text \<open>
  Every error of this file is made by \<^verbatim>\<open>fmt.Errorf\<close> and carries its text; the one
  exception is \<^verbatim>\<open>FatalError\<close>, a struct that wraps another error.
\<close>

datatype error = Errorf string | FatalError error

fun Error :: "error \<Rightarrow> string" where
  "Error (Errorf m) = m"
| "Error (FatalError e) = Error e"

fun isFatal :: "error \<Rightarrow> bool" where
  "isFatal (FatalError e) = True"
| "isFatal (Errorf m) = False"

text \<open>The verb \<^verbatim>\<open>%v\<close> applied to an error value that may be nil.\<close>

fun fmt_v :: "error option \<Rightarrow> string" where
  "fmt_v None = ''<nil>''"
| "fmt_v (Some e) = Error e"

text \<open>
  A run-time panic ends the call in progress and every caller above it (nothing in this
  file recovers), so each operation yields either a panic or the values it returns.
\<close>

datatype panic = IndexOutOfRange | NilDereference | PanicValue string

datatype 'a outcome = Panic panic | Return 'a

section \<open>The decoded response envelopes\<close>

record linodeError =
  Code :: int
  Message :: string

record linodeResult =
  Errors :: "linodeError list"

text \<open>
  \<^verbatim>\<open>linodeResult.err\<close>: the loop returns in its first iteration, so only the first error
  record is read. Indexing \<^verbatim>\<open>e.Message[0]\<close> panics when the message is empty.
\<close>

definition linodeResult_err :: "'a linodeResult_scheme \<Rightarrow> error option outcome" where
  "linodeResult_err r =
     (case Errors r of
        [] \<Rightarrow> Return None
      | e # es \<Rightarrow>
          (case Message e of
             [] \<Rightarrow> Panic IndexOutOfRange
           | c # cs \<Rightarrow> Return (Some (Errorf (lowerFirst c cs)))))"

record linodeJobInfo =
  JobID :: int
  LinodeID :: int
  Action :: string
  Label :: string
  HostStart :: string
  HostFinish :: string
  HostSuccess :: int
  HostMessage :: string

definition linodeJobInfo_err :: "linodeJobInfo \<Rightarrow> error option" where
  "linodeJobInfo_err job =
     (if HostSuccess job = 1 \<or> HostFinish job = [] then None
      else (case HostMessage job of
              c # cs \<Rightarrow> Some (Errorf (lowerFirst c cs))
            | [] \<Rightarrow> Some (Errorf (''job '' @ strconv_Itoa (JobID job) @ '' failed silently''))))"

text \<open>
  The pattern \<^verbatim>\<open>err := l.do(...); if err == nil { err = result.err() }\<close> that follows
  most requests.
\<close>

definition orResultErr :: "error option \<Rightarrow> 'a linodeResult_scheme \<Rightarrow> error option outcome" where
  "orResultErr err result = (case err of None \<Rightarrow> linodeResult_err result | Some e \<Rightarrow> Return (Some e))"

type_synonym ImageID = string

text \<open>
  \<^verbatim>\<open>Backend\<close> is declared outside this file; these are the two fields read here.
\<close>

record Backend =
  Name :: string
  Key :: string

text \<open>
  The server record. Its field \<^verbatim>\<open>l\<close>, the pointer back to the one provider value, is
  left out: the provider state is passed to every operation.
\<close>

record linodeServer =
  ID :: int
  Label :: string
  Status :: int
  Addr :: string
  Img :: ImageID
  Config :: int
  Root :: int
  Swap :: int

definition linodeBeingCreated :: int where "linodeBeingCreated = - 1"
definition linodeBrandNew :: int where "linodeBrandNew = 0"
definition linodeRunning :: int where "linodeRunning = 1"
definition linodePoweredOff :: int where "linodePoweredOff = 2"

text \<open>
  A pointer is an option, nil being \<open>None\<close>: the single pointer field
  \<^verbatim>\<open>Data *linodeJob\<close> is nil when the envelope carries no \<^verbatim>\<open>DATA\<close>, and an element of
  a slice of pointers (\<^verbatim>\<open>[]*linodeServer\<close> and the like) is nil where the JSON array has
  \<^verbatim>\<open>null\<close>. Reading a field through a nil pointer panics.
\<close>

record linodeListResult =
  Data :: "linodeServer option list"

record linodeJob =
  JobID :: int

record linodeJobResult = linodeResult +
  Data :: "linodeJob option"

record linodeDiskJob =
  DiskID :: int
  JobID :: int

record linodeDiskJobResult = linodeResult +
  Data :: "linodeDiskJob option"

record linodeConfigData =
  ConfigID :: int

record linodeConfigResult = linodeResult +
  Data :: linodeConfigData

record linodeJobInfoResult = linodeResult +
  Data :: "linodeJobInfo option list"

record linodeIP =
  ID :: int
  LinodeID :: int
  IsPublic :: int
  IPAddress :: string
  RDNSName :: string

record linodeIPResult = linodeResult +
  Data :: "linodeIP option list"

record linodeDistro =
  Name :: string
  KernelID :: int
  ID :: int
  Label :: string
  MinImageSize :: int
  VOPSKernel :: int
  Is64Bit :: int
  Create :: string

record distrosResult = linodeResult +
  Data :: "linodeDistro option list"

record linodeKernel =
  ID :: int
  IsPVOPS :: int
  IsXEN :: int
  IsKVM :: int
  Label :: string

record kernelsResult = linodeResult +
  Data :: "linodeKernel option list"

section \<open>Requests and the provider\<close>

text \<open>
  \<^verbatim>\<open>linodeParams\<close> is a map from parameter names to integers, strings, booleans or, for
  a batch, a list of parameter maps; it is written as the list of its entries.
\<close>

datatype pvalue = PInt int | PStr string | PBool bool | PBatch "(string \<times> pvalue) list list"

type_synonym linodeParams = "(string \<times> pvalue) list"

text \<open>
  What one HTTP exchange can come to inside \<^verbatim>\<open>do\<close>: the POST fails, reading the body
  fails, or the body reaches \<^verbatim>\<open>json.Unmarshal\<close>, which fills the caller's result and
  may still report an error (\<open>Decoded (Some e) r\<close>: the result was filled as far as
  \<open>r\<close>).
\<close>

datatype 'a response = PostFailed string | ReadFailed string | Decoded "string option" 'a

text \<open>
  The provider value: the fields of the struct \<^verbatim>\<open>linode\<close> (without its mutex: calls are
  sequential here), together with the outside it talks to, which is the list of requests
  posted so far and the state \<open>provider\<close> of the remote service.
\<close>

record 'w linode =
  backend :: Backend
  distrosDone :: bool
  distrosCache :: "linodeDistro option list"
  kernelsCache :: "linodeKernel option list"
  sent :: "linodeParams list"
  provider :: 'w

text \<open>
  What this file takes from outside: the methods \<^verbatim>\<open>SystemID\<close> and \<^verbatim>\<open>Label\<close> of
  \<^verbatim>\<open>ImageID\<close>, declared elsewhere in the package, and the remote service, which answers
  a request in a given state with a response of the shape the caller decodes, one
  function for each shape.
\<close>

record 'w outside =
  SystemID :: "ImageID \<Rightarrow> string"
  ImageLabel :: "ImageID \<Rightarrow> string \<Rightarrow> string"
  postList :: "linodeParams \<Rightarrow> 'w \<Rightarrow> linodeListResult response \<times> 'w"
  postJob :: "linodeParams \<Rightarrow> 'w \<Rightarrow> linodeJobResult response \<times> 'w"
  postDiskJobs :: "linodeParams \<Rightarrow> 'w \<Rightarrow> linodeDiskJobResult list response \<times> 'w"
  postResults :: "linodeParams \<Rightarrow> 'w \<Rightarrow> linodeResult list response \<times> 'w"
  postConfig :: "linodeParams \<Rightarrow> 'w \<Rightarrow> linodeConfigResult response \<times> 'w"
  postResult :: "linodeParams \<Rightarrow> 'w \<Rightarrow> linodeResult response \<times> 'w"
  postJobInfo :: "linodeParams \<Rightarrow> 'w \<Rightarrow> linodeJobInfoResult response \<times> 'w"
  postIP :: "linodeParams \<Rightarrow> 'w \<Rightarrow> linodeIPResult response \<times> 'w"
  postDistros :: "linodeParams \<Rightarrow> 'w \<Rightarrow> distrosResult response \<times> 'w"
  postKernels :: "linodeParams \<Rightarrow> 'w \<Rightarrow> kernelsResult response \<times> 'w"

text \<open>
  \<^verbatim>\<open>do\<close>: post the parameters, read and decode the answer into \<open>result\<close>. The encoding
  of the parameters as form values cannot fail for the values built in this file, and
  the account key added to the form is not recorded. With \<^verbatim>\<open>Debug\<close> set the body is
  decoded once more beforehand, which fails only where the decoding into \<open>result\<close>
  fails too, with the same error text and \<open>result\<close> untouched.
\<close>

definition do ::
  "(linodeParams \<Rightarrow> 'w \<Rightarrow> 'a response \<times> 'w) \<Rightarrow> linodeParams \<Rightarrow> 'a \<Rightarrow> 'w linode
     \<Rightarrow> (error option \<times> 'a) \<times> 'w linode" where
  "do post params result l =
     (case post params (provider l) of
        (PostFailed e, w) \<Rightarrow>
          ((Some (Errorf (''cannot perform Linode request: '' @ e)), result),
           l\<lparr>sent := sent l @ [params], provider := w\<rparr>)
      | (ReadFailed e, w) \<Rightarrow>
          ((Some (Errorf (''cannot read Linode response: '' @ e)), result),
           l\<lparr>sent := sent l @ [params], provider := w\<rparr>)
      | (Decoded (Some e) r, w) \<Rightarrow>
          ((Some (Errorf (''cannot decode Linode response: '' @ e)), r),
           l\<lparr>sent := sent l @ [params], provider := w\<rparr>)
      | (Decoded None r, w) \<Rightarrow>
          ((None, r), l\<lparr>sent := sent l @ [params], provider := w\<rparr>))"

definition linodeServer_String :: "'w outside \<Rightarrow> 'w linode \<Rightarrow> linodeServer \<Rightarrow> string" where
  "linodeServer_String h l s =
     Backend.Name (backend l) @ '':'' @ SystemID h (Img s) @ '' ('' @ linodeServer.Label s @ '')''"

section \<open>Listing, jobs, disks and configurations\<close>

text \<open>\<^verbatim>\<open>list\<close> does not look at an error list: \<^verbatim>\<open>linodeListResult\<close> has none.\<close>

definition list ::
  "'w outside \<Rightarrow> 'w linode \<Rightarrow> (error + linodeServer option list) \<times> 'w linode" where
  "list h l =
     (case do (postList h) [(''api_action'', PStr ''linode.list'')] \<lparr>linodeListResult.Data = []\<rparr> l of
        ((Some err, result), l1) \<Rightarrow> (Inl err, l1)
      | ((None, result), l1) \<Rightarrow> (Inr (linodeListResult.Data result), l1))"

definition serverJob ::
  "'w outside \<Rightarrow> linodeServer \<Rightarrow> string \<Rightarrow> linodeParams \<Rightarrow> 'w linode
     \<Rightarrow> (error + linodeJob option) outcome \<times> 'w linode" where
  "serverJob h server verb params l =
     (case do (postJob h) params \<lparr>Errors = [], linodeJobResult.Data = None\<rparr> l of
        ((err, result), l1) \<Rightarrow>
          (case orResultErr err result of
             Panic p \<Rightarrow> (Panic p, l1)
           | Return (Some e) \<Rightarrow>
               (Return (Inl (Errorf (''cannot '' @ verb @ '' '' @ linodeServer_String h l1 server
                                       @ '': '' @ Error e))), l1)
           | Return None \<Rightarrow> (Return (Inr (linodeJobResult.Data result)), l1)))"

text \<open>\<^verbatim>\<open>boot\<close> posts \<^verbatim>\<open>linode.reboot\<close> under the verb "reboot", as \<^verbatim>\<open>reboot\<close> does.\<close>

definition boot ::
  "'w outside \<Rightarrow> linodeServer \<Rightarrow> int \<Rightarrow> 'w linode \<Rightarrow> (error + linodeJob option) outcome \<times> 'w linode" where
  "boot h server configID =
     serverJob h server ''reboot''
       [(''api_action'', PStr ''linode.reboot''), (''LinodeID'', PInt (linodeServer.ID server)),
        (''ConfigID'', PInt configID)]"

definition reboot ::
  "'w outside \<Rightarrow> linodeServer \<Rightarrow> int \<Rightarrow> 'w linode \<Rightarrow> (error + linodeJob option) outcome \<times> 'w linode" where
  "reboot h server configID =
     serverJob h server ''reboot''
       [(''api_action'', PStr ''linode.reboot''), (''LinodeID'', PInt (linodeServer.ID server)),
        (''ConfigID'', PInt configID)]"

definition shutdown ::
  "'w outside \<Rightarrow> linodeServer \<Rightarrow> 'w linode \<Rightarrow> (error + linodeJob option) outcome \<times> 'w linode" where
  "shutdown h server =
     serverJob h server ''shutdown''
       [(''api_action'', PStr ''linode.shutdown''), (''LinodeID'', PInt (linodeServer.ID server))]"

text \<open>The loop of \<^verbatim>\<open>removeDisks\<close> over the sub-results: the first error, if any.\<close>

fun firstResultErr :: "linodeResult list \<Rightarrow> error option outcome" where
  "firstResultErr [] = Return None"
| "firstResultErr (result # results) =
     (case linodeResult_err result of
        Panic p \<Rightarrow> Panic p
      | Return (Some e) \<Rightarrow> Return (Some e)
      | Return None \<Rightarrow> firstResultErr results)"

definition removeDisksParams :: "linodeServer \<Rightarrow> int list \<Rightarrow> linodeParams" where
  "removeDisksParams server diskIDs =
     [(''api_action'', PStr ''batch''),
      (''api_requestArray'',
       PBatch (map (\<lambda>diskID. [(''api_action'', PStr ''linode.disk.delete''),
                               (''LinodeID'', PInt (linodeServer.ID server)),
                               (''DiskID'', PInt diskID)]) diskIDs))]"

definition removeDisks ::
  "'w outside \<Rightarrow> linodeServer \<Rightarrow> int list \<Rightarrow> 'w linode \<Rightarrow> error option outcome \<times> 'w linode" where
  "removeDisks h server diskIDs l =
     (case do (postResults h) (removeDisksParams server diskIDs) [] l of
        ((Some err, results), l1) \<Rightarrow>
          (Return (Some (Errorf (''cannot remove disk on '' @ linodeServer_String h l1 server
                                   @ '': '' @ Error err))), l1)
      | ((None, results), l1) \<Rightarrow>
          (case firstResultErr results of
             Panic p \<Rightarrow> (Panic p, l1)
           | Return (Some e) \<Rightarrow>
               (Return (Some (Errorf (''cannot remove disk on '' @ linodeServer_String h l1 server
                                        @ '': '' @ Error e))), l1)
           | Return None \<Rightarrow> (Return None, l1)))"

definition removeConfigParams :: "linodeServer \<Rightarrow> int \<Rightarrow> linodeParams" where
  "removeConfigParams server configID =
     [(''api_action'', PStr ''linode.config.delete''), (''LinodeID'', PInt (linodeServer.ID server)),
      (''ConfigID'', PInt configID)]"

definition removeConfig ::
  "'w outside \<Rightarrow> linodeServer \<Rightarrow> int \<Rightarrow> 'w linode \<Rightarrow> error option outcome \<times> 'w linode" where
  "removeConfig h server configID l =
     (case do (postResult h) (removeConfigParams server configID) \<lparr>Errors = []\<rparr> l of
        ((err, result), l1) \<Rightarrow>
          (case orResultErr err result of
             Panic p \<Rightarrow> (Panic p, l1)
           | Return (Some e) \<Rightarrow>
               (Return (Some (Errorf (''cannot remove config from '' @ linodeServer_String h l1 server
                                        @ '': '' @ Error e))), l1)
           | Return None \<Rightarrow> (Return None, l1)))"

definition jobInfoParams :: "linodeServer \<Rightarrow> int \<Rightarrow> linodeParams" where
  "jobInfoParams server jobID =
     [(''api_action'', PStr ''linode.job.list''), (''LinodeID'', PInt (linodeServer.ID server)),
      (''JobID'', PInt jobID)]"

text \<open>
  \<^verbatim>\<open>jobInfo\<close> returns the pointer \<^verbatim>\<open>result.Data[0]\<close> as it is, nil included.
\<close>

definition jobInfo ::
  "'w outside \<Rightarrow> linodeServer \<Rightarrow> int \<Rightarrow> 'w linode
     \<Rightarrow> (error + linodeJobInfo option) outcome \<times> 'w linode" where
  "jobInfo h server jobID l =
     (case do (postJobInfo h) (jobInfoParams server jobID)
             \<lparr>Errors = [], linodeJobInfoResult.Data = []\<rparr> l of
        ((err, result), l1) \<Rightarrow>
          (case orResultErr err result of
             Panic p \<Rightarrow> (Panic p, l1)
           | Return err1 \<Rightarrow>
               (let err2 = (if err1 = None \<and> length (linodeJobInfoResult.Data result) = 0
                            then Some (Errorf ''empty result'') else err1)
                in case err2 of
                     Some e \<Rightarrow>
                       (Return (Inl (Errorf (''cannot get job details for ''
                                               @ linodeServer_String h l1 server @ '': '' @ Error e))), l1)
                   | None \<Rightarrow> (Return (Inr (hd (linodeJobInfoResult.Data result))), l1))))"

text \<open>
  The loop of \<^verbatim>\<open>ip\<close> over the addresses: the first one marked public. It reads
  \<^verbatim>\<open>ip.IsPublic\<close> of every entry it passes.
\<close>

fun firstPublic :: "linodeIP option list \<Rightarrow> linodeIP option outcome" where
  "firstPublic [] = Return None"
| "firstPublic (None # ips) = Panic NilDereference"
| "firstPublic (Some a # ips) = (if IsPublic a = 1 then Return (Some a) else firstPublic ips)"

text \<open>\<^verbatim>\<open>ip\<close> returns the error of \<^verbatim>\<open>do\<close> as it is and wraps the provider's.\<close>

definition ip ::
  "'w outside \<Rightarrow> linodeServer \<Rightarrow> 'w linode \<Rightarrow> (error + linodeIP) outcome \<times> 'w linode" where
  "ip h server l =
     (case do (postIP h)
             [(''api_action'', PStr ''linode.ip.list''), (''LinodeID'', PInt (linodeServer.ID server))]
             \<lparr>Errors = [], linodeIPResult.Data = []\<rparr> l of
        ((Some err, result), l1) \<Rightarrow> (Return (Inl err), l1)
      | ((None, result), l1) \<Rightarrow>
          (case linodeResult_err result of
             Panic p \<Rightarrow> (Panic p, l1)
           | Return (Some e) \<Rightarrow>
               (Return (Inl (Errorf (''cannot list IPs for '' @ linodeServer_String h l1 server
                                       @ '': '' @ Error e))), l1)
           | Return None \<Rightarrow>
               (case firstPublic (linodeIPResult.Data result) of
                  Panic p \<Rightarrow> (Panic p, l1)
                | Return (Some a) \<Rightarrow> (Return (Inr a), l1)
                | Return None \<Rightarrow>
                    (Return (Inl (Errorf (''cannot find public IP for ''
                                            @ linodeServer_String h l1 server))), l1))))"

section \<open>The catalog of distributions and kernels\<close>

text \<open>
  The two retry loops of \<^verbatim>\<open>cacheDistros\<close>. \<open>retry\<close> is the loop counter and \<open>err\<close> the
  variable \<^verbatim>\<open>err\<close> of the function, which keeps the error of the last attempt.
\<close>

function fetchDistros ::
  "'w outside \<Rightarrow> nat \<Rightarrow> error option \<Rightarrow> 'w linode \<Rightarrow> error option outcome \<times> 'w linode" where
  "fetchDistros h retry err l =
     (if retry < 3 then
        (case do (postDistros h) [(''api_action'', PStr ''avail.distributions'')]
                \<lparr>Errors = [], distrosResult.Data = []\<rparr> l of
           ((err1, result), l1) \<Rightarrow>
             (case orResultErr err1 result of
                Panic p \<Rightarrow> (Panic p, l1)
              | Return None \<Rightarrow> (Return None, l1\<lparr>distrosCache := distrosResult.Data result\<rparr>)
              | Return (Some e) \<Rightarrow> fetchDistros h (retry + 1) (Some e) l1))
      else (Return err, l))"
  by pat_completeness auto
termination
  by (relation "measure (\<lambda>(h, retry, err, l). 3 - retry)") auto

function fetchKernels ::
  "'w outside \<Rightarrow> nat \<Rightarrow> error option \<Rightarrow> 'w linode \<Rightarrow> error option outcome \<times> 'w linode" where
  "fetchKernels h retry err l =
     (if retry < 3 then
        (case do (postKernels h) [(''api_action'', PStr ''avail.kernels'')]
                \<lparr>Errors = [], kernelsResult.Data = []\<rparr> l of
           ((err1, result), l1) \<Rightarrow>
             (case orResultErr err1 result of
                Panic p \<Rightarrow> (Panic p, l1)
              | Return None \<Rightarrow> (Return None, l1\<lparr>kernelsCache := kernelsResult.Data result\<rparr>)
              | Return (Some e) \<Rightarrow> fetchKernels h (retry + 1) (Some e) l1))
      else (Return err, l))"
  by pat_completeness auto
termination
  by (relation "measure (\<lambda>(h, retry, err, l). 3 - retry)") auto

declare fetchDistros.simps [simp del] fetchKernels.simps [simp del]

text \<open>
  The loop over the kernels, which reads \<^verbatim>\<open>kernel.Label\<close> of every entry; the result is
  the pair \<^verbatim>\<open>(latest32, latest64)\<close>.
\<close>

fun latestKernels :: "linodeKernel option list \<Rightarrow> int \<Rightarrow> int \<Rightarrow> (int \<times> int) outcome" where
  "latestKernels [] latest32 latest64 = Return (latest32, latest64)"
| "latestKernels (None # kernels) latest32 latest64 = Panic NilDereference"
| "latestKernels (Some k # kernels) latest32 latest64 =
     latestKernels kernels
       (if strings_HasPrefix (linodeKernel.Label k) ''Latest 32 bit''
        then linodeKernel.ID k else latest32)
       (if strings_HasPrefix (linodeKernel.Label k) ''Latest 64 bit''
        then linodeKernel.ID k else latest64)"

text \<open>
  The name of a distribution from its label. \<^verbatim>\<open>label[1]\<close> is read without a test of
  the length, so a label of fewer than two words panics.
\<close>

definition distroName :: "string \<Rightarrow> string outcome" where
  "distroName distroLabel =
     (let label = strings_Fields (strings_ToLower distroLabel)
      in if length label > 2 \<and> label ! 1 = ''linux'' then Return (label ! 0 @ ''-'' @ label ! 2)
         else if length label \<ge> 2 then Return (label ! 0 @ ''-'' @ label ! 1)
         else Panic IndexOutOfRange)"

text \<open>
  The loop over the distributions, which writes through the pointers of the cache: at a
  panic the entries before it are complete, the entry at hand has its kernel only (a
  nil entry, whose \<^verbatim>\<open>Is64Bit\<close> cannot be read, has nothing), and the rest is untouched.
\<close>

fun nameDistros ::
  "int \<Rightarrow> int \<Rightarrow> linodeDistro option list \<Rightarrow> panic option \<times> linodeDistro option list" where
  "nameDistros latest32 latest64 [] = (None, [])"
| "nameDistros latest32 latest64 (None # distros) = (Some NilDereference, None # distros)"
| "nameDistros latest32 latest64 (Some distro # distros) =
     (let d = distro\<lparr>KernelID := (if Is64Bit distro = 1 then latest64 else latest32)\<rparr>
      in case distroName (linodeDistro.Label d) of
           Panic p \<Rightarrow> (Some p, Some d # distros)
         | Return n \<Rightarrow>
             (case nameDistros latest32 latest64 distros of
                (r, ds) \<Rightarrow> (r, Some (d\<lparr>linodeDistro.Name := n\<rparr>) # ds)))"

definition cacheDistros :: "'w outside \<Rightarrow> 'w linode \<Rightarrow> error option outcome \<times> 'w linode" where
  "cacheDistros h l =
     (case fetchDistros h 0 None l of
        (Panic p, l1) \<Rightarrow> (Panic p, l1)
      | (Return (Some err), l1) \<Rightarrow>
          (Return (Some (Errorf (''cannot list Linode distributions: '' @ Error err))), l1)
      | (Return None, l1) \<Rightarrow>
          (case fetchKernels h 0 None l1 of
             (Panic p, l2) \<Rightarrow> (Panic p, l2)
           | (Return (Some err), l2) \<Rightarrow>
               (Return (Some (Errorf (''cannot list Linode kernels: '' @ Error err))), l2)
           | (Return None, l2) \<Rightarrow>
               (case latestKernels (kernelsCache l2) (- 1) (- 1) of
                  Panic p \<Rightarrow> (Panic p, l2)
                | Return (latest32, latest64) \<Rightarrow>
                    if latest32 = - 1 \<or> latest64 = - 1
                    then (Return (Some (Errorf ''cannot find latest Linode kernel'')), l2)
                    else (case nameDistros latest32 latest64 (distrosCache l2) of
                            (Some p, ds) \<Rightarrow> (Panic p, l2\<lparr>distrosCache := ds\<rparr>)
                          | (None, ds) \<Rightarrow> (Return None, l2\<lparr>distrosCache := ds\<rparr>)))))"

text \<open>
  The loop of \<^verbatim>\<open>distro\<close> over the cache; \<open>best\<close> is the variable \<^verbatim>\<open>best\<close>. The result
  is the entry returned from inside the loop or, at its end, \<^verbatim>\<open>best\<close>. The loop reads
  \<^verbatim>\<open>distro.Name\<close> of every entry it passes.
\<close>

fun distroScan ::
  "string \<Rightarrow> linodeDistro option list \<Rightarrow> linodeDistro option \<Rightarrow> linodeDistro option outcome" where
  "distroScan system [] best = Return best"
| "distroScan system (None # distros) best = Panic NilDereference"
| "distroScan system (Some distro # distros) best =
     (if linodeDistro.Name distro \<noteq> system then distroScan system distros best
      else if Is64Bit distro = 1 then Return (Some distro)
      else distroScan system distros (Some distro))"

text \<open>
  \<^verbatim>\<open>distro\<close>. The flag \<^verbatim>\<open>distrosDone\<close> is set before the loop, so it is set also when
  the loop panics. The format of the last error has a verb and no argument, so
  \<^verbatim>\<open>fmt\<close> prints the verb as missing.
\<close>

definition distro ::
  "'w outside \<Rightarrow> ImageID \<Rightarrow> 'w linode \<Rightarrow> (error + linodeDistro) outcome \<times> 'w linode" where
  "distro h img l =
     (case (if \<not> distrosDone l then cacheDistros h l else (Return None, l)) of
        (Panic p, l1) \<Rightarrow> (Panic p, l1)
      | (Return (Some err), l1) \<Rightarrow> (Return (Inl err), l1)
      | (Return None, l1) \<Rightarrow>
          (case distroScan (SystemID h img) (distrosCache l1) None of
             Panic p \<Rightarrow> (Panic p, l1\<lparr>distrosDone := True\<rparr>)
           | Return None \<Rightarrow>
               (Return (Inl (Errorf ''cannot find system %!s(MISSING) in Linode'')),
                l1\<lparr>distrosDone := True\<rparr>)
           | Return (Some d) \<Rightarrow> (Return (Inr d), l1\<lparr>distrosDone := True\<rparr>)))"

section \<open>Creating disks and configurations\<close>

definition createDiskParams ::
  "'w outside \<Rightarrow> linodeServer \<Rightarrow> ImageID \<Rightarrow> string \<Rightarrow> linodeDistro \<Rightarrow> linodeParams" where
  "createDiskParams h server img password d =
     [(''api_action'', PStr ''batch''),
      (''api_requestArray'',
       PBatch [[(''api_action'', PStr ''linode.disk.createFromDistribution''),
                (''LinodeID'', PInt (linodeServer.ID server)),
                (''DistributionID'', PInt (linodeDistro.ID d)),
                (''Label'', PStr (ImageLabel h img ''root'')),
                (''Size'', PInt 4096),
                (''rootPass'', PStr password)],
               [(''api_action'', PStr ''linode.disk.create''),
                (''LinodeID'', PInt (linodeServer.ID server)),
                (''Label'', PStr (ImageLabel h img ''swap'')),
                (''Size'', PInt 256),
                (''Type'', PStr ''swap'')]])]"

text \<open>
  The loop of \<^verbatim>\<open>createDisk\<close> over the sub-results, with its index \<open>i\<close> and the
  variables \<^verbatim>\<open>root\<close> and \<^verbatim>\<open>err\<close>. It ends in one of two ways: \<open>Inl (root, swap)\<close> is
  the \<^verbatim>\<open>return root, swap, nil\<close> inside the loop, \<open>Inr (root, err)\<close> is leaving the loop,
  by \<^verbatim>\<open>break\<close> or at the end of the slice.
\<close>

fun createDiskLoop ::
  "nat \<Rightarrow> linodeDiskJobResult list \<Rightarrow> linodeDiskJob option \<Rightarrow> error option
     \<Rightarrow> ((linodeDiskJob option \<times> linodeDiskJob option) + (linodeDiskJob option \<times> error option)) outcome" where
  "createDiskLoop i [] root err = Return (Inr (root, err))"
| "createDiskLoop i (result # results) root err =
     (case linodeResult_err result of
        Panic p \<Rightarrow> Panic p
      | Return (Some e) \<Rightarrow> Return (Inr (root, Some e))
      | Return None \<Rightarrow>
          if i = 0 then createDiskLoop (Suc i) results (linodeDiskJobResult.Data result) err
          else Return (Inl (root, linodeDiskJobResult.Data result)))"

text \<open>
  \<^verbatim>\<open>createDisk\<close>. The error of \<^verbatim>\<open>do\<close> is not tested before the loop. An \<^verbatim>\<open>ImageID\<close>
  is a string and is printed as such.
\<close>

definition createDisk ::
  "'w outside \<Rightarrow> linodeServer \<Rightarrow> ImageID \<Rightarrow> string \<Rightarrow> 'w linode
     \<Rightarrow> (error + linodeDiskJob option \<times> linodeDiskJob option) outcome \<times> 'w linode" where
  "createDisk h server img password l =
     (case distro h img l of
        (Panic p, l0) \<Rightarrow> (Panic p, l0)
      | (Return (Inl err), l0) \<Rightarrow> (Return (Inl err), l0)
      | (Return (Inr d), l0) \<Rightarrow>
          (case do (postDiskJobs h) (createDiskParams h server img password d) [] l0 of
             ((err, results), l1) \<Rightarrow>
               (case createDiskLoop 0 results None err of
                  Panic p \<Rightarrow> (Panic p, l1)
                | Return (Inl (root, swap)) \<Rightarrow> (Return (Inr (root, swap)), l1)
                | Return (Inr (root, err1)) \<Rightarrow>
                    (case (case root of
                             Some r \<Rightarrow> removeDisks h server [DiskID r] l1
                           | None \<Rightarrow> (Return None, l1)) of
                       (Panic p, l2) \<Rightarrow> (Panic p, l2)
                     | (Return ignored, l2) \<Rightarrow>
                         (let err2 = (if length results = 0 then Some (Errorf ''empty batch result'')
                                      else err1)
                          in (Return (Inl (Errorf (''cannot create Linode disk with '' @ img
                                                     @ '': '' @ fmt_v err2))), l2))))))"

definition createConfigParams ::
  "'w outside \<Rightarrow> linodeServer \<Rightarrow> ImageID \<Rightarrow> int \<Rightarrow> int \<Rightarrow> linodeDistro \<Rightarrow> linodeParams" where
  "createConfigParams h server img rootID swapID d =
     [(''api_action'', PStr ''linode.config.create''),
      (''LinodeID'', PInt (linodeServer.ID server)),
      (''KernelID'', PInt (KernelID d)),
      (''Label'', PStr (ImageLabel h img '''')),
      (''DiskList'', PStr (strconv_Itoa rootID @ '','' @ strconv_Itoa swapID)),
      (''RootDeviceNum'', PInt 1),
      (''RootDeviceR0'', PBool True),
      (''helper_disableUpdateDB'', PBool True),
      (''helper_distro'', PBool True),
      (''helper_depmod'', PBool True),
      (''helper_network'', PBool False),
      (''devtmpfs_automount'', PBool True)]"

definition createConfig ::
  "'w outside \<Rightarrow> linodeServer \<Rightarrow> ImageID \<Rightarrow> int \<Rightarrow> int \<Rightarrow> 'w linode
     \<Rightarrow> (error + int) outcome \<times> 'w linode" where
  "createConfig h server img rootID swapID l =
     (case distro h img l of
        (Panic p, l0) \<Rightarrow> (Panic p, l0)
      | (Return (Inl err), l0) \<Rightarrow> (Return (Inl err), l0)
      | (Return (Inr d), l0) \<Rightarrow>
          (case do (postConfig h) (createConfigParams h server img rootID swapID d)
                  \<lparr>Errors = [], linodeConfigResult.Data = \<lparr>ConfigID = 0\<rparr>\<rparr> l0 of
             ((err, result), l1) \<Rightarrow>
               (case orResultErr err result of
                  Panic p \<Rightarrow> (Panic p, l1)
                | Return (Some e) \<Rightarrow>
                    (Return (Inl (Errorf (''cannot create config on '' @ linodeServer_String h l1 server
                                            @ '' with '' @ img @ '': '' @ Error e))), l1)
                | Return None \<Rightarrow>
                    (Return (Inr (ConfigID (linodeConfigResult.Data result))), l1))))"

section \<open>Waiting for a job\<close>

text \<open>
  \<^verbatim>\<open>waitJob\<close> loops over a \<^verbatim>\<open>select\<close> on two channels, the one-minute timeout and
  the five-second ticker. Which of them is taken at each turn is decided by the clock
  and the scheduler; the timeout is taken in the end. \<open>ticks\<close> is the number of turns
  that take the ticker before the turn that takes the timeout, and \<open>infoErr\<close> is the
  variable \<^verbatim>\<open>infoErr\<close>. Reading \<^verbatim>\<open>job.HostFinish\<close> through a nil pointer panics.
\<close>

fun waitJobLoop ::
  "'w outside \<Rightarrow> linodeServer \<Rightarrow> string \<Rightarrow> int \<Rightarrow> nat \<Rightarrow> error option \<Rightarrow> 'w linode
     \<Rightarrow> (linodeJobInfo option \<times> error option) outcome \<times> 'w linode" where
  "waitJobLoop h server verb jobID 0 infoErr l =
     (case infoErr of
        Some e \<Rightarrow> (Return (None, Some e), l)
      | None \<Rightarrow>
          (case removeConfig h server (Config server) l of
             (Panic p, l1) \<Rightarrow> (Panic p, l1)
           | (Return ignored1, l1) \<Rightarrow>
               (case removeDisks h server [Root server, Swap server] l1 of
                  (Panic p, l2) \<Rightarrow> (Panic p, l2)
                | (Return ignored2, l2) \<Rightarrow>
                    (Return (None, Some (Errorf (''timeout waiting for ''
                                                   @ linodeServer_String h l2 server
                                                   @ '' to '' @ verb))), l2))))"
| "waitJobLoop h server verb jobID (Suc ticks) infoErr l =
     (case jobInfo h server jobID l of
        (Panic p, l1) \<Rightarrow> (Panic p, l1)
      | (Return (Inl err), l1) \<Rightarrow>
          waitJobLoop h server verb jobID ticks
            (Some (Errorf (''cannot '' @ verb @ '' '' @ linodeServer_String h l1 server
                             @ '': '' @ Error err))) l1
      | (Return (Inr None), l1) \<Rightarrow> (Panic NilDereference, l1)
      | (Return (Inr (Some job)), l1) \<Rightarrow>
          if HostFinish job \<noteq> [] then
            (case linodeJobInfo_err job of
               Some err \<Rightarrow>
                 (Return (Some job,
                          Some (Errorf (''cannot '' @ verb @ '' '' @ linodeServer_String h l1 server
                                          @ '': '' @ Error err))), l1)
             | None \<Rightarrow> (Return (Some job, None), l1))
          else waitJobLoop h server verb jobID ticks infoErr l1)"

definition waitJob ::
  "'w outside \<Rightarrow> linodeServer \<Rightarrow> string \<Rightarrow> int \<Rightarrow> nat \<Rightarrow> 'w linode
     \<Rightarrow> (linodeJobInfo option \<times> error option) outcome \<times> 'w linode" where
  "waitJob h server verb jobID ticks l = waitJobLoop h server verb jobID ticks None l"

section \<open>Allocating and discarding a server\<close>

text \<open>
  The method \<^verbatim>\<open>setup\<close> of the provider (its name is a keyword here, hence \<open>setupServer\<close>)
  writes into the server it is given; the result is that server on success.
  Reading \<^verbatim>\<open>rootJob.DiskID\<close>, \<^verbatim>\<open>swapJob.DiskID\<close> or \<^verbatim>\<open>bootJob.JobID\<close> through a nil
  pointer panics. \<open>ticks\<close> is handed to \<open>waitJob\<close>.
\<close>

definition setupServer ::
  "'w outside \<Rightarrow> linodeServer \<Rightarrow> ImageID \<Rightarrow> string \<Rightarrow> nat \<Rightarrow> 'w linode
     \<Rightarrow> (error + linodeServer) outcome \<times> 'w linode" where
  "setupServer h server0 img password ticks l =
     (let server1 = server0\<lparr>Img := img\<rparr>
      in case ip h server1 l of
           (Panic p, l1) \<Rightarrow> (Panic p, l1)
         | (Return (Inl err), l1) \<Rightarrow> (Return (Inl err), l1)
         | (Return (Inr a), l1) \<Rightarrow>
             (let server2 = server1\<lparr>Addr := IPAddress a\<rparr>
              in case createDisk h server2 img password l1 of
                   (Panic p, l2) \<Rightarrow> (Panic p, l2)
                 | (Return (Inl err), l2) \<Rightarrow> (Return (Inl err), l2)
                 | (Return (Inr (None, swapJob)), l2) \<Rightarrow> (Panic NilDereference, l2)
                 | (Return (Inr (Some rootJob, None)), l2) \<Rightarrow> (Panic NilDereference, l2)
                 | (Return (Inr (Some rootJob, Some swapJob)), l2) \<Rightarrow>
                     (let server3 = server2\<lparr>Root := DiskID rootJob, Swap := DiskID swapJob\<rparr>
                      in case createConfig h server3 img (Root server3) (Swap server3) l2 of
                           (Panic p, l3) \<Rightarrow> (Panic p, l3)
                         | (Return (Inl err), l3) \<Rightarrow>
                             (case removeDisks h server3 [Root server3, Swap server3] l3 of
                                (Panic p, l4) \<Rightarrow> (Panic p, l4)
                              | (Return ignored, l4) \<Rightarrow> (Return (Inl err), l4))
                         | (Return (Inr configID), l3) \<Rightarrow>
                             (let server4 = server3\<lparr>Config := configID\<rparr>
                              in case (case boot h server4 configID l3 of
                                         (Panic p, l4) \<Rightarrow> (Panic p, l4)
                                       | (Return (Inl err), l4) \<Rightarrow> (Return (Some err), l4)
                                       | (Return (Inr None), l4) \<Rightarrow> (Panic NilDereference, l4)
                                       | (Return (Inr (Some bootJob)), l4) \<Rightarrow>
                                           (case waitJob h server4 ''boot'' (linodeJob.JobID bootJob)
                                                   ticks l4 of
                                              (Panic p, l5) \<Rightarrow> (Panic p, l5)
                                            | (Return (job, err), l5) \<Rightarrow> (Return err, l5))) of
                                   (Panic p, l5) \<Rightarrow> (Panic p, l5)
                                 | (Return None, l5) \<Rightarrow> (Return (Inr server4), l5)
                                 | (Return (Some err), l5) \<Rightarrow>
                                     (case removeConfig h server4 (Config server4) l5 of
                                        (Panic p, l6) \<Rightarrow> (Panic p, l6)
                                      | (Return ignored1, l6) \<Rightarrow>
                                          (case removeDisks h server4 [Root server4, Swap server4] l6 of
                                             (Panic p, l7) \<Rightarrow> (Panic p, l7)
                                           | (Return ignored2, l7) \<Rightarrow> (Return (Inl err), l7)))))))"

text \<open>
  The loop of \<^verbatim>\<open>Allocate\<close> over the servers: it reads \<^verbatim>\<open>server.Status\<close> of every entry
  it passes and returns at the first powered-off one.
\<close>

fun allocateLoop ::
  "'w outside \<Rightarrow> linodeServer option list \<Rightarrow> ImageID \<Rightarrow> string \<Rightarrow> nat \<Rightarrow> 'w linode
     \<Rightarrow> (error + linodeServer) outcome \<times> 'w linode" where
  "allocateLoop h [] img password ticks l =
     (Return (Inl (Errorf ''no powered off servers in Linode account'')), l)"
| "allocateLoop h (None # servers) img password ticks l = (Panic NilDereference, l)"
| "allocateLoop h (Some server # servers) img password ticks l =
     (if Status server \<noteq> linodePoweredOff then allocateLoop h servers img password ticks l
      else setupServer h server img password ticks l)"

definition Allocate ::
  "'w outside \<Rightarrow> ImageID \<Rightarrow> string \<Rightarrow> nat \<Rightarrow> 'w linode
     \<Rightarrow> (error + linodeServer) outcome \<times> 'w linode" where
  "Allocate h img password ticks l =
     (case list h l of
        (Inl err, l1) \<Rightarrow> (Return (Inl err), l1)
      | (Inr servers, l1) \<Rightarrow>
          if length servers = 0
          then (Return (Inl (FatalError (Errorf ''no servers in Linode account''))), l1)
          else allocateLoop h servers img password ticks l1)"

fun firstErr :: "error option list \<Rightarrow> error option" where
  "firstErr [] = None"
| "firstErr (Some err # errs) = Some err"
| "firstErr (None # errs) = firstErr errs"

definition Discard :: "'w outside \<Rightarrow> linodeServer \<Rightarrow> 'w linode \<Rightarrow> error option outcome \<times> 'w linode" where
  "Discard h s l =
     (case shutdown h s l of
        (Panic p, l1) \<Rightarrow> (Panic p, l1)
      | (Return r1, l1) \<Rightarrow>
          (case removeConfig h s (Config s) l1 of
             (Panic p, l2) \<Rightarrow> (Panic p, l2)
           | (Return err2, l2) \<Rightarrow>
               (case removeDisks h s [Root s, Swap s] l2 of
                  (Panic p, l3) \<Rightarrow> (Panic p, l3)
                | (Return err3, l3) \<Rightarrow>
                    (Return (firstErr [(case r1 of Inl err1 \<Rightarrow> Some err1 | Inr job \<Rightarrow> None),
                                       err2, err3]), l3))))"

section \<open>Reuse data\<close>

text \<open>
  \<^verbatim>\<open>ReuseData\<close> and \<^verbatim>\<open>Reuse\<close> go through the YAML library, which is not part of this
  file. The serialized form is taken as the document the library writes and reads, a
  mapping from keys to scalars, not as its text. For a struct the library writes one
  entry for each exported field in the order of declaration, under the key of the
  field's \<^verbatim>\<open>yaml\<close> tag or else its lower-cased name, and leaves out a field tagged
  \<^verbatim>\<open>"-"\<close>; reading a mapping, it sets the fields whose keys occur and passes over
  other keys. A scalar of the wrong kind is reported as an error here; the library's
  conversions between kinds of scalars are not modelled.
\<close>

datatype yaml = YInt int | YStr string | YMap "(string \<times> yaml) list"

definition yaml_Marshal :: "linodeServer \<Rightarrow> string + yaml" where
  "yaml_Marshal s =
     Inr (YMap [(''id'', YInt (linodeServer.ID s)),
                (''label'', YStr (linodeServer.Label s)),
                (''address'', YStr (Addr s)),
                (''image'', YStr (Img s)),
                (''config'', YInt (Config s)),
                (''root'', YInt (Root s)),
                (''swap'', YInt (Swap s))])"

definition yamlInt :: "yaml \<Rightarrow> string + int" where
  "yamlInt v = (case v of YInt n \<Rightarrow> Inr n | YStr x \<Rightarrow> Inl ''cannot unmarshal !!str into int''
                | YMap m \<Rightarrow> Inl ''cannot unmarshal !!map into int'')"

definition yamlStr :: "yaml \<Rightarrow> string + string" where
  "yamlStr v = (case v of YStr x \<Rightarrow> Inr x | YInt n \<Rightarrow> Inl ''cannot unmarshal !!int into string''
                | YMap m \<Rightarrow> Inl ''cannot unmarshal !!map into string'')"

definition yamlSetField :: "string \<Rightarrow> yaml \<Rightarrow> linodeServer \<Rightarrow> string + linodeServer" where
  "yamlSetField k v s =
     (if k = ''id'' then map_sum id (\<lambda>n. s\<lparr>linodeServer.ID := n\<rparr>) (yamlInt v)
      else if k = ''label'' then map_sum id (\<lambda>x. s\<lparr>linodeServer.Label := x\<rparr>) (yamlStr v)
      else if k = ''address'' then map_sum id (\<lambda>x. s\<lparr>Addr := x\<rparr>) (yamlStr v)
      else if k = ''image'' then map_sum id (\<lambda>x. s\<lparr>Img := x\<rparr>) (yamlStr v)
      else if k = ''config'' then map_sum id (\<lambda>n. s\<lparr>Config := n\<rparr>) (yamlInt v)
      else if k = ''root'' then map_sum id (\<lambda>n. s\<lparr>Root := n\<rparr>) (yamlInt v)
      else if k = ''swap'' then map_sum id (\<lambda>n. s\<lparr>Swap := n\<rparr>) (yamlInt v)
      else Inr s)"

fun yamlSetFields :: "(string \<times> yaml) list \<Rightarrow> linodeServer \<Rightarrow> string + linodeServer" where
  "yamlSetFields [] s = Inr s"
| "yamlSetFields ((k, v) # kvs) s =
     (case yamlSetField k v s of Inl e \<Rightarrow> Inl e | Inr s1 \<Rightarrow> yamlSetFields kvs s1)"

definition yaml_Unmarshal :: "yaml \<Rightarrow> linodeServer \<Rightarrow> string + linodeServer" where
  "yaml_Unmarshal data s =
     (case data of
        YMap kvs \<Rightarrow> yamlSetFields kvs s
      | YInt n \<Rightarrow> Inl ''cannot unmarshal !!int into spread.linodeServer''
      | YStr x \<Rightarrow> Inl ''cannot unmarshal !!str into spread.linodeServer'')"

definition ReuseData :: "linodeServer \<Rightarrow> yaml outcome" where
  "ReuseData s = (case yaml_Marshal s of Inl err \<Rightarrow> Panic (PanicValue err) | Inr data \<Rightarrow> Return data)"

text \<open>\<^verbatim>\<open>Reuse\<close> starts from \<^verbatim>\<open>&linodeServer{}\<close>, every field at its zero value.\<close>

definition Reuse :: "yaml \<Rightarrow> string \<Rightarrow> error + linodeServer" where
  "Reuse data password =
     (case yaml_Unmarshal data
             \<lparr>linodeServer.ID = 0, linodeServer.Label = [], Status = 0, Addr = [], Img = [],
              Config = 0, Root = 0, Swap = 0\<rparr> of
        Inl err \<Rightarrow> Inl (Errorf (''cannot unmarshal Linode reuse data: '' @ err))
      | Inr server \<Rightarrow> Inr server)"

section \<open>A scripted provider\<close>

text \<open>
  One instance of the outside, for running the operations on concrete inputs: the state
  of the remote service is the list of the responses it will give, in order. A request
  that meets a response of another shape, or none, fails as a POST.
\<close>

datatype reply =
    ListReply "linodeListResult response"
  | JobReply "linodeJobResult response"
  | DiskJobsReply "linodeDiskJobResult list response"
  | ResultsReply "linodeResult list response"
  | ConfigReply "linodeConfigResult response"
  | ResultReply "linodeResult response"
  | JobInfoReply "linodeJobInfoResult response"
  | IPReply "linodeIPResult response"
  | DistrosReply "distrosResult response"
  | KernelsReply "kernelsResult response"

definition scriptList :: "linodeParams \<Rightarrow> reply list \<Rightarrow> linodeListResult response \<times> reply list" where
  "scriptList params w =
     (case w of ListReply r # rest \<Rightarrow> (r, rest) | _ \<Rightarrow> (PostFailed ''no answer'', tl w))"

definition scriptJob :: "linodeParams \<Rightarrow> reply list \<Rightarrow> linodeJobResult response \<times> reply list" where
  "scriptJob params w =
     (case w of JobReply r # rest \<Rightarrow> (r, rest) | _ \<Rightarrow> (PostFailed ''no answer'', tl w))"

definition scriptDiskJobs ::
  "linodeParams \<Rightarrow> reply list \<Rightarrow> linodeDiskJobResult list response \<times> reply list" where
  "scriptDiskJobs params w =
     (case w of DiskJobsReply r # rest \<Rightarrow> (r, rest) | _ \<Rightarrow> (PostFailed ''no answer'', tl w))"

definition scriptResults :: "linodeParams \<Rightarrow> reply list \<Rightarrow> linodeResult list response \<times> reply list" where
  "scriptResults params w =
     (case w of ResultsReply r # rest \<Rightarrow> (r, rest) | _ \<Rightarrow> (PostFailed ''no answer'', tl w))"

definition scriptConfig :: "linodeParams \<Rightarrow> reply list \<Rightarrow> linodeConfigResult response \<times> reply list" where
  "scriptConfig params w =
     (case w of ConfigReply r # rest \<Rightarrow> (r, rest) | _ \<Rightarrow> (PostFailed ''no answer'', tl w))"

definition scriptResult :: "linodeParams \<Rightarrow> reply list \<Rightarrow> linodeResult response \<times> reply list" where
  "scriptResult params w =
     (case w of ResultReply r # rest \<Rightarrow> (r, rest) | _ \<Rightarrow> (PostFailed ''no answer'', tl w))"

definition scriptJobInfo :: "linodeParams \<Rightarrow> reply list \<Rightarrow> linodeJobInfoResult response \<times> reply list" where
  "scriptJobInfo params w =
     (case w of JobInfoReply r # rest \<Rightarrow> (r, rest) | _ \<Rightarrow> (PostFailed ''no answer'', tl w))"

definition scriptIP :: "linodeParams \<Rightarrow> reply list \<Rightarrow> linodeIPResult response \<times> reply list" where
  "scriptIP params w =
     (case w of IPReply r # rest \<Rightarrow> (r, rest) | _ \<Rightarrow> (PostFailed ''no answer'', tl w))"

definition scriptDistros :: "linodeParams \<Rightarrow> reply list \<Rightarrow> distrosResult response \<times> reply list" where
  "scriptDistros params w =
     (case w of DistrosReply r # rest \<Rightarrow> (r, rest) | _ \<Rightarrow> (PostFailed ''no answer'', tl w))"

definition scriptKernels :: "linodeParams \<Rightarrow> reply list \<Rightarrow> kernelsResult response \<times> reply list" where
  "scriptKernels params w =
     (case w of KernelsReply r # rest \<Rightarrow> (r, rest) | _ \<Rightarrow> (PostFailed ''no answer'', tl w))"

text \<open>
  In this instance the system of an image is the image identifier itself, and a disk
  label is the identifier followed by the kind of disk.
\<close>

definition scripted :: "reply list outside" where
  "scripted =
     \<lparr>SystemID = (\<lambda>img. img), ImageLabel = (\<lambda>img dflt. img @ ''-'' @ dflt),
      postList = scriptList, postJob = scriptJob, postDiskJobs = scriptDiskJobs,
      postResults = scriptResults, postConfig = scriptConfig, postResult = scriptResult,
      postJobInfo = scriptJobInfo, postIP = scriptIP, postDistros = scriptDistros,
      postKernels = scriptKernels\<rparr>"

text \<open>A provider value before its first request, facing the given script.\<close>

definition start :: "reply list \<Rightarrow> reply list linode" where
  "start script =
     \<lparr>backend = \<lparr>Backend.Name = ''linode'', Key = ''secret''\<rparr>, distrosDone = False,
      distrosCache = [], kernelsCache = [], sent = [], provider = script\<rparr>"

text \<open>Sample values: a server, a catalog entry, a kernel, an envelope with one error.\<close>

definition machine :: "int \<Rightarrow> int \<Rightarrow> linodeServer" where
  "machine i st =
     \<lparr>linodeServer.ID = i, linodeServer.Label = ''box'', Status = st, Addr = [], Img = [],
      Config = 0, Root = 0, Swap = 0\<rparr>"

definition entry :: "int \<Rightarrow> string \<Rightarrow> int \<Rightarrow> linodeDistro" where
  "entry i lbl b =
     \<lparr>linodeDistro.Name = [], KernelID = 0, linodeDistro.ID = i, linodeDistro.Label = lbl,
      MinImageSize = 0, VOPSKernel = 0, Is64Bit = b, Create = []\<rparr>"

definition kern :: "int \<Rightarrow> string \<Rightarrow> linodeKernel" where
  "kern i lbl = \<lparr>linodeKernel.ID = i, IsPVOPS = 0, IsXEN = 0, IsKVM = 0, linodeKernel.Label = lbl\<rparr>"

definition failing :: "string \<Rightarrow> linodeResult" where
  "failing msg = \<lparr>Errors = [\<lparr>Code = 1, Message = msg\<rparr>]\<rparr>"

text \<open>Sample scripts: the two catalog lists, complete and without a 32-bit kernel.\<close>

definition catalog :: "reply list" where
  "catalog =
     [DistrosReply (Decoded None \<lparr>Errors = [], distrosResult.Data =
        map Some [entry 10 ''Ubuntu 16.04 LTS'' 0, entry 11 ''Ubuntu 16.04 LTS'' 1,
         entry 12 ''Arch Linux 2016.01'' 1]\<rparr>),
      KernelsReply (Decoded None \<lparr>Errors = [], kernelsResult.Data =
        map Some [kern 2 ''Latest 32 bit (4.0)'', kern 3 ''Latest 32 bit (4.1)'',
         kern 7 ''Latest 64 bit (4.1)'', kern 9 ''4.1.0-x86_64-linode59'']\<rparr>)]"

definition catalogNo32 :: "reply list" where
  "catalogNo32 =
     [DistrosReply (Decoded None \<lparr>Errors = [], distrosResult.Data =
        map Some [entry 10 ''Ubuntu 16.04 LTS'' 0]\<rparr>),
      KernelsReply (Decoded None \<lparr>Errors = [], kernelsResult.Data =
        map Some [kern 7 ''Latest 64 bit (4.1)'']\<rparr>)]"

text \<open>The entries of a slice of pointers that are not nil, in order.\<close>

definition present :: "'a option list \<Rightarrow> 'a list" where
  "present xs = concat (map (\<lambda>x. case x of None \<Rightarrow> [] | Some a \<Rightarrow> [a]) xs)"

text \<open>The kernels whose label starts with a given prefix, in list order.\<close>

definition kernelsNamed :: "string \<Rightarrow> linodeKernel list \<Rightarrow> linodeKernel list" where
  "kernelsNamed p ks = filter (\<lambda>k. strings_HasPrefix (linodeKernel.Label k) p) ks"

text \<open>A catalog with a distribution whose label has one word.\<close>

definition oneWord :: "reply list" where
  "oneWord =
     [DistrosReply (Decoded None \<lparr>Errors = [], distrosResult.Data =
        map Some [entry 10 ''Ubuntu 16.04 LTS'' 1, entry 13 ''Debian'' 1, entry 12 ''Arch Linux 2016.01'' 1]\<rparr>),
      KernelsReply (Decoded None \<lparr>Errors = [], kernelsResult.Data =
        map Some [kern 3 ''Latest 32 bit (4.1)'', kern 7 ''Latest 64 bit (4.1)'']\<rparr>)]"

text \<open>A server as \<^verbatim>\<open>setup\<close> leaves it, and two scripts for its teardown.\<close>

definition installed :: linodeServer where
  "installed = (machine 2 1)\<lparr>Addr := ''1.2.3.4'', Img := ''ubuntu-16.04'', Config := 55, Root := 100, Swap := 101\<rparr>"

definition teardownEmptyMessage :: "reply list" where
  "teardownEmptyMessage =
     [JobReply (Decoded None \<lparr>Errors = [\<lparr>Code = 1, Message = ''''\<rparr>], linodeJobResult.Data = None\<rparr>),
      ResultReply (Decoded None \<lparr>Errors = []\<rparr>),
      ResultsReply (Decoded None [\<lparr>Errors = []\<rparr>, \<lparr>Errors = []\<rparr>])]"

definition teardownBusy :: "reply list" where
  "teardownBusy =
     [JobReply (Decoded None \<lparr>Errors = [\<lparr>Code = 1, Message = ''Linode busy''\<rparr>], linodeJobResult.Data = None\<rparr>),
      ResultReply (Decoded None \<lparr>Errors = []\<rparr>),
      ResultsReply (Decoded None [\<lparr>Errors = []\<rparr>, \<lparr>Errors = []\<rparr>])]"

text \<open>Scripts for \<^verbatim>\<open>createDisk\<close>: the catalog, then the answer to the batch.\<close>

definition swapEmptyMessage :: "reply list" where
  "swapEmptyMessage = catalog @
     [DiskJobsReply (Decoded None
        [\<lparr>Errors = [], linodeDiskJobResult.Data = Some \<lparr>DiskID = 100, linodeDiskJob.JobID = 1\<rparr>\<rparr>,
         \<lparr>Errors = [\<lparr>Code = 1, Message = ''''\<rparr>], linodeDiskJobResult.Data = None\<rparr>]),
      ResultsReply (Decoded None [\<lparr>Errors = []\<rparr>])]"

definition swapNoSpace :: "reply list" where
  "swapNoSpace = catalog @
     [DiskJobsReply (Decoded None
        [\<lparr>Errors = [], linodeDiskJobResult.Data = Some \<lparr>DiskID = 100, linodeDiskJob.JobID = 1\<rparr>\<rparr>,
         \<lparr>Errors = [\<lparr>Code = 1, Message = ''No space left''\<rparr>], linodeDiskJobResult.Data = None\<rparr>]),
      ResultsReply (Decoded None [\<lparr>Errors = []\<rparr>])]"

definition emptyBatch :: "reply list" where
  "emptyBatch = catalog @ [DiskJobsReply (Decoded None [])]"


text \<open>
  Scripts for \<^verbatim>\<open>waitJob\<close>: eleven polls, then the answers to the rollback. In the first
  two the job is still running at every poll; in the third every poll fails.
\<close>

definition running :: reply where
  "running =
     JobInfoReply (Decoded None \<lparr>Errors = [], linodeJobInfoResult.Data =
       map Some [\<lparr>linodeJobInfo.JobID = 77, linodeJobInfo.LinodeID = 2, Action = ''linode.boot'',
         linodeJobInfo.Label = ''boot'', HostStart = ''2016-04-01'', HostFinish = [],
         HostSuccess = 0, HostMessage = []\<rparr>]\<rparr>)"

definition rollbackEmptyMessage :: "reply list" where
  "rollbackEmptyMessage =
     replicate 11 running @
     [ResultReply (Decoded None (failing [])),
      ResultsReply (Decoded None [\<lparr>Errors = []\<rparr>, \<lparr>Errors = []\<rparr>])]"

definition rollbackRefused :: "reply list" where
  "rollbackRefused =
     replicate 11 running @
     [ResultReply (Decoded None (failing ''Config in use'')),
      ResultsReply (Decoded None [\<lparr>Errors = []\<rparr>, \<lparr>Errors = []\<rparr>])]"

definition pollsFail :: "reply list" where
  "pollsFail =
     replicate 10 (JobInfoReply (PostFailed ''connection refused'')) @
     [JobInfoReply (ReadFailed ''reset'')]"

text \<open>Scripts for the population of the catalog: two failed attempts and a third.\<close>

definition thirdEmptyMessage :: "reply list" where
  "thirdEmptyMessage =
     [DistrosReply (PostFailed ''timeout''), DistrosReply (PostFailed ''timeout''),
      DistrosReply (Decoded None \<lparr>Errors = [\<lparr>Code = 1, Message = ''''\<rparr>], distrosResult.Data = []\<rparr>)]"

definition thirdUnavailable :: "reply list" where
  "thirdUnavailable =
     [DistrosReply (PostFailed ''timeout''), DistrosReply (PostFailed ''timeout''),
      DistrosReply (Decoded None \<lparr>Errors = [\<lparr>Code = 1, Message = ''Service unavailable''\<rparr>],
                                  distrosResult.Data = []\<rparr>)]"

text \<open>The parameters of the two catalog requests.\<close>

definition distrosParams :: linodeParams where
  "distrosParams = [(''api_action'', PStr ''avail.distributions'')]"

definition kernelsParams :: linodeParams where
  "kernelsParams = [(''api_action'', PStr ''avail.kernels'')]"

text \<open>One turn of each retry loop: the request and the test of its result.\<close>

definition tryDistros :: "'w outside \<Rightarrow> 'w linode \<Rightarrow> error option outcome \<times> 'w linode" where
  "tryDistros h l =
     (case do (postDistros h) distrosParams \<lparr>Errors = [], distrosResult.Data = []\<rparr> l of
        ((err1, result), l1) \<Rightarrow>
          (case orResultErr err1 result of
             Panic p \<Rightarrow> (Panic p, l1)
           | Return None \<Rightarrow> (Return None, l1\<lparr>distrosCache := distrosResult.Data result\<rparr>)
           | Return (Some e) \<Rightarrow> (Return (Some e), l1)))"

definition tryKernels :: "'w outside \<Rightarrow> 'w linode \<Rightarrow> error option outcome \<times> 'w linode" where
  "tryKernels h l =
     (case do (postKernels h) kernelsParams \<lparr>Errors = [], kernelsResult.Data = []\<rparr> l of
        ((err1, result), l1) \<Rightarrow>
          (case orResultErr err1 result of
             Panic p \<Rightarrow> (Panic p, l1)
           | Return None \<Rightarrow> (Return None, l1\<lparr>kernelsCache := kernelsResult.Data result\<rparr>)
           | Return (Some e) \<Rightarrow> (Return (Some e), l1)))"

text \<open>Up to three turns: stop at the first that succeeds or panics, else the last error.\<close>

definition threeTimes ::
  "('s \<Rightarrow> error option outcome \<times> 's) \<Rightarrow> 's \<Rightarrow> error option outcome \<times> 's" where
  "threeTimes try l =
     (case try l of
        (Return (Some e1), l1) \<Rightarrow>
          (case try l1 of
             (Return (Some e2), l2) \<Rightarrow> try l2
           | other \<Rightarrow> other)
      | other \<Rightarrow> other)"

text \<open>
  Scripts for \<^verbatim>\<open>Allocate\<close>: three servers of which the second and third are powered
  off, with every later request answered well and the boot job finished at the second
  poll; an account without servers; an account whose servers all run.
\<close>

definition happy :: "reply list" where
  "happy =
     [ListReply (Decoded None \<lparr>linodeListResult.Data = map Some [machine 1 1, machine 2 2, machine 3 2]\<rparr>),
      IPReply (Decoded None \<lparr>Errors = [], linodeIPResult.Data =
        map Some [\<lparr>linodeIP.ID = 1, linodeIP.LinodeID = 2, IsPublic = 0, IPAddress = ''192.168.0.2'', RDNSName = []\<rparr>,
         \<lparr>linodeIP.ID = 2, linodeIP.LinodeID = 2, IsPublic = 1, IPAddress = ''1.2.3.4'', RDNSName = []\<rparr>]\<rparr>)]
     @ catalog @
     [DiskJobsReply (Decoded None
        [\<lparr>Errors = [], linodeDiskJobResult.Data = Some \<lparr>DiskID = 100, linodeDiskJob.JobID = 1\<rparr>\<rparr>,
         \<lparr>Errors = [], linodeDiskJobResult.Data = Some \<lparr>DiskID = 101, linodeDiskJob.JobID = 2\<rparr>\<rparr>]),
      ConfigReply (Decoded None \<lparr>Errors = [], linodeConfigResult.Data = \<lparr>ConfigID = 55\<rparr>\<rparr>),
      JobReply (Decoded None \<lparr>Errors = [], linodeJobResult.Data = Some \<lparr>linodeJob.JobID = 77\<rparr>\<rparr>),
      JobInfoReply (Decoded None \<lparr>Errors = [], linodeJobInfoResult.Data =
        map Some [\<lparr>linodeJobInfo.JobID = 77, linodeJobInfo.LinodeID = 2, Action = ''linode.boot'',
          linodeJobInfo.Label = ''boot'', HostStart = ''2016-04-01'', HostFinish = [],
          HostSuccess = 0, HostMessage = []\<rparr>]\<rparr>),
      JobInfoReply (Decoded None \<lparr>Errors = [], linodeJobInfoResult.Data =
        map Some [\<lparr>linodeJobInfo.JobID = 77, linodeJobInfo.LinodeID = 2, Action = ''linode.boot'',
          linodeJobInfo.Label = ''boot'', HostStart = ''2016-04-01'', HostFinish = ''2016-04-01'',
          HostSuccess = 1, HostMessage = []\<rparr>]\<rparr>)]"

definition noServers :: "reply list" where
  "noServers = [ListReply (Decoded None \<lparr>linodeListResult.Data = []\<rparr>)]"

definition allRunning :: "reply list" where
  "allRunning = [ListReply (Decoded None \<lparr>linodeListResult.Data = map Some [machine 1 1, machine 2 1]\<rparr>)]"

text \<open>
  An account whose only server is powered off and a provider that answers every step
  of \<^verbatim>\<open>setup\<close> well with blank values: an empty public address and the identifier 0 for
  both disks and for the configuration.
\<close>

definition blankAnswers :: "reply list" where
  "blankAnswers =
     [ListReply (Decoded None \<lparr>linodeListResult.Data = map Some [machine 2 2]\<rparr>),
      IPReply (Decoded None \<lparr>Errors = [], linodeIPResult.Data =
        map Some [\<lparr>linodeIP.ID = 2, linodeIP.LinodeID = 2, IsPublic = 1, IPAddress = [], RDNSName = []\<rparr>]\<rparr>)]
     @ catalog @
     [DiskJobsReply (Decoded None
        [\<lparr>Errors = [], linodeDiskJobResult.Data = Some \<lparr>DiskID = 0, linodeDiskJob.JobID = 1\<rparr>\<rparr>,
         \<lparr>Errors = [], linodeDiskJobResult.Data = Some \<lparr>DiskID = 0, linodeDiskJob.JobID = 2\<rparr>\<rparr>]),
      ConfigReply (Decoded None \<lparr>Errors = [], linodeConfigResult.Data = \<lparr>ConfigID = 0\<rparr>\<rparr>),
      JobReply (Decoded None \<lparr>Errors = [], linodeJobResult.Data = Some \<lparr>linodeJob.JobID = 77\<rparr>\<rparr>),
      JobInfoReply (Decoded None \<lparr>Errors = [], linodeJobInfoResult.Data =
        map Some [\<lparr>linodeJobInfo.JobID = 77, linodeJobInfo.LinodeID = 2, Action = ''linode.boot'',
          linodeJobInfo.Label = ''boot'', HostStart = ''2016-04-01'', HostFinish = ''2016-04-01'',
          HostSuccess = 1, HostMessage = []\<rparr>]\<rparr>)]"

text \<open>Answers with a \<^verbatim>\<open>null\<close> in the array: a list of servers and a list of kernels.\<close>

definition nullServer :: "reply list" where
  "nullServer = [ListReply (Decoded None \<lparr>linodeListResult.Data = [None]\<rparr>)]"

definition nullKernel :: "reply list" where
  "nullKernel =
     [DistrosReply (Decoded None \<lparr>Errors = [], distrosResult.Data =
        map Some [entry 10 ''Ubuntu 16.04 LTS'' 0]\<rparr>),
      KernelsReply (Decoded None \<lparr>Errors = [], kernelsResult.Data = [None]\<rparr>)]"

text \<open>The three requests of \<^verbatim>\<open>Allocate\<close> and \<^verbatim>\<open>setup\<close> that are written out in place.\<close>

definition listParams :: linodeParams where
  "listParams = [(''api_action'', PStr ''linode.list'')]"

definition ipParams :: "linodeServer \<Rightarrow> linodeParams" where
  "ipParams server =
     [(''api_action'', PStr ''linode.ip.list''), (''LinodeID'', PInt (linodeServer.ID server))]"

definition bootParams :: "linodeServer \<Rightarrow> int \<Rightarrow> linodeParams" where
  "bootParams server configID =
     [(''api_action'', PStr ''linode.reboot''), (''LinodeID'', PInt (linodeServer.ID server)),
      (''ConfigID'', PInt configID)]"

section \<open>Properties\<close>

subsection \<open>What every operation posts and keeps\<close>

lemma sent_do: "do post params result l = (r, l1) \<Longrightarrow> sent l1 = sent l @ [params]"
  by (auto simp: do_def split: prod.splits response.splits option.splits)

lemma sent_serverJob: "serverJob h s verb params l = (r, l1) \<Longrightarrow> sent l1 = sent l @ [params]"
  by (auto simp: serverJob_def split: prod.splits outcome.splits option.splits dest: sent_do)

lemma sent_removeConfig:
  "removeConfig h s c l = (r, l1) \<Longrightarrow> sent l1 = sent l @ [removeConfigParams s c]"
  by (auto simp: removeConfig_def split: prod.splits outcome.splits option.splits dest: sent_do)

lemma sent_removeDisks:
  "removeDisks h s ds l = (r, l1) \<Longrightarrow> sent l1 = sent l @ [removeDisksParams s ds]"
  by (auto simp: removeDisks_def split: prod.splits outcome.splits option.splits dest: sent_do)

lemma sent_jobInfo: "jobInfo h s j l = (r, l1) \<Longrightarrow> sent l1 = sent l @ [jobInfoParams s j]"
  by (auto simp: jobInfo_def Let_def split: prod.splits outcome.splits option.splits if_splits
           dest: sent_do)

lemma done_do: "do post params result l = (r, l1) \<Longrightarrow> distrosDone l1 = distrosDone l"
  by (auto simp: do_def split: prod.splits response.splits option.splits)



subsection \<open>The retry loops and the catalog flag\<close>

lemma fetchDistros_step:
  "retry < 3 \<Longrightarrow> fetchDistros h retry err l =
     (case tryDistros h l of
        (Return (Some e), l1) \<Rightarrow> fetchDistros h (retry + 1) (Some e) l1
      | other \<Rightarrow> other)"
  by (subst fetchDistros.simps)
     (simp add: tryDistros_def distrosParams_def split: prod.splits outcome.splits option.splits)

lemma fetchDistros_end: "\<not> retry < 3 \<Longrightarrow> fetchDistros h retry err l = (Return err, l)"
  by (subst fetchDistros.simps) simp

lemma fetchDistros_three_attempts: "fetchDistros h 0 None l = threeTimes (tryDistros h) l"
  by (simp add: fetchDistros_step fetchDistros_end threeTimes_def
           split: prod.splits outcome.splits option.splits)

lemma fetchKernels_step:
  "retry < 3 \<Longrightarrow> fetchKernels h retry err l =
     (case tryKernels h l of
        (Return (Some e), l1) \<Rightarrow> fetchKernels h (retry + 1) (Some e) l1
      | other \<Rightarrow> other)"
  by (subst fetchKernels.simps)
     (simp add: tryKernels_def kernelsParams_def split: prod.splits outcome.splits option.splits)

lemma fetchKernels_end: "\<not> retry < 3 \<Longrightarrow> fetchKernels h retry err l = (Return err, l)"
  by (subst fetchKernels.simps) simp

lemma fetchKernels_three_attempts: "fetchKernels h 0 None l = threeTimes (tryKernels h) l"
  by (simp add: fetchKernels_step fetchKernels_end threeTimes_def
           split: prod.splits outcome.splits option.splits)

lemma done_tryDistros: "tryDistros h l = (r, l1) \<Longrightarrow> distrosDone l1 = distrosDone l"
  by (auto simp: tryDistros_def split: prod.splits outcome.splits option.splits dest: done_do)

lemma done_tryKernels: "tryKernels h l = (r, l1) \<Longrightarrow> distrosDone l1 = distrosDone l"
  by (auto simp: tryKernels_def split: prod.splits outcome.splits option.splits dest: done_do)

lemma done_threeTimes:
  assumes "\<And>l r l1. try l = (r, l1) \<Longrightarrow> distrosDone l1 = distrosDone l"
    and "threeTimes try l = (r, l')"
  shows "distrosDone l' = distrosDone l"
proof -
  obtain r1 l1 where a: "try l = (r1, l1)" by (cases "try l")
  obtain r2 l2 where b: "try l1 = (r2, l2)" by (cases "try l1")
  obtain r3 l3 where c: "try l2 = (r3, l3)" by (cases "try l2")
  from assms(2) a b c have "l' = l1 \<or> l' = l2 \<or> l' = l3"
    by (auto simp: threeTimes_def split: outcome.splits option.splits)
  with assms(1) [OF a] assms(1) [OF b] assms(1) [OF c] show ?thesis by auto
qed

lemma done_cacheDistros:
  assumes "cacheDistros h l = (r, l')"
  shows "distrosDone l' = distrosDone l"
proof -
  obtain r1 l1 where a: "fetchDistros h 0 None l = (r1, l1)" by (cases "fetchDistros h 0 None l")
  obtain r2 l2 where b: "fetchKernels h 0 None l1 = (r2, l2)" by (cases "fetchKernels h 0 None l1")
  have d1: "distrosDone l1 = distrosDone l"
    using a done_threeTimes [of "tryDistros h" l r1 l1] done_tryDistros
    unfolding fetchDistros_three_attempts by blast
  have d2: "distrosDone l2 = distrosDone l1"
    using b done_threeTimes [of "tryKernels h" l1 r2 l2] done_tryKernels
    unfolding fetchKernels_three_attempts by blast
  from assms a b have "l' = l1 \<or> l' = l2 \<or> (\<exists>ds. l' = l2\<lparr>distrosCache := ds\<rparr>)"
    by (auto simp: cacheDistros_def split: outcome.splits option.splits prod.splits if_splits)
  with d1 d2 show ?thesis by auto
qed

lemma done_idem: "distrosDone l \<Longrightarrow> l\<lparr>distrosDone := True\<rparr> = l"
  by (cases l) simp

lemma distro_cached:
  assumes "distrosDone l"
  shows "snd (distro h img l) = l"
  using assms by (simp add: distro_def done_idem split: outcome.splits option.splits)

subsection \<open>Slices of pointers without nil\<close>

lemma present_Nil [simp]: "present [] = []"
  by (simp add: present_def)

lemma present_None [simp]: "present (None # xs) = present xs"
  by (simp add: present_def)

lemma present_Some [simp]: "present (Some a # xs) = a # present xs"
  by (simp add: present_def)

lemma present_map_Some [simp]: "present (map Some xs) = xs"
  by (induction xs) simp_all

lemma set_present: "a \<in> set (present xs) \<longleftrightarrow> Some a \<in> set xs"
proof (induction xs)
  case Nil
  show ?case by simp
next
  case (Cons x xs)
  then show ?case by (cases x) auto
qed

lemma no_nil_present: "None \<notin> set xs \<Longrightarrow> xs = map Some (present xs)"
proof (induction xs)
  case Nil
  show ?case by simp
next
  case (Cons x xs)
  then show ?case by (cases x) auto
qed

text \<open>
  The naming loop: when it ends without panic no entry is nil and every entry has the
  kernel of its word size.
\<close>

lemma nameDistros_no_nil: "nameDistros a b ds = (None, ds') \<Longrightarrow> None \<notin> set ds'"
proof (induction ds arbitrary: ds')
  case Nil
  then show ?case by simp
next
  case (Cons x xs)
  show ?case
  proof (cases x)
    case None
    with Cons.prems show ?thesis by simp
  next
    case (Some y)
    with Cons.prems obtain n ys where
      ys: "nameDistros a b xs = (None, ys)" and
      ds': "ds' = Some (y\<lparr>KernelID := (if Is64Bit y = 1 then b else a), linodeDistro.Name := n\<rparr>) # ys"
      by (auto simp: Let_def split: outcome.splits prod.splits)
    with Cons.IH [OF ys] show ?thesis by simp
  qed
qed

lemma nameDistros_kernel:
  "nameDistros a b ds = (None, ds') \<Longrightarrow> Some d \<in> set ds' \<Longrightarrow>
     KernelID d = (if Is64Bit d = 1 then b else a)"
proof (induction ds arbitrary: ds')
  case Nil
  then show ?case by simp
next
  case (Cons x xs)
  show ?case
  proof (cases x)
    case None
    with Cons.prems(1) show ?thesis by simp
  next
    case (Some y)
    with Cons.prems(1) obtain n ys where
      ys: "nameDistros a b xs = (None, ys)" and
      ds': "ds' = Some (y\<lparr>KernelID := (if Is64Bit y = 1 then b else a), linodeDistro.Name := n\<rparr>) # ys"
      by (auto simp: Let_def split: outcome.splits prod.splits)
    from Cons.prems(2) ds' consider
        "d = y\<lparr>KernelID := (if Is64Bit y = 1 then b else a), linodeDistro.Name := n\<rparr>"
      | "Some d \<in> set ys"
      by auto
    then show ?thesis
    proof cases
      case 1
      then show ?thesis by simp
    next
      case 2
      with Cons.IH [OF ys] show ?thesis by simp
    qed
  qed
qed

text \<open>
  A nil entry in an answer: the first address record, the first job record and an entry
  of the catalog that the naming loop reaches.
\<close>

lemma ip_nil_entry:
  assumes "postIP h (ipParams s) (provider l) = (Decoded None r, w)"
    and "Errors r = []" and "linodeIPResult.Data r = None # rest"
  shows "ip h s l = (Panic NilDereference, l\<lparr>sent := sent l @ [ipParams s], provider := w\<rparr>)"
  using assms by (simp add: ip_def ipParams_def do_def linodeResult_err_def)

lemma jobInfo_nil_entry:
  assumes "postJobInfo h (jobInfoParams s j) (provider l) = (Decoded None r, w)"
    and "Errors r = []" and "linodeJobInfoResult.Data r = None # rest"
  shows "jobInfo h s j l =
           (Return (Inr None), l\<lparr>sent := sent l @ [jobInfoParams s j], provider := w\<rparr>)"
  using assms by (simp add: jobInfo_def do_def orResultErr_def linodeResult_err_def)

lemma waitJob_nil_job:
  assumes "jobInfo h s j l = (Return (Inr None), l1)"
  shows "waitJob h s verb j (Suc ticks) l = (Panic NilDereference, l1)"
  using assms by (simp add: waitJob_def)

lemma nameDistros_nil_entry:
  "None \<in> set ds \<Longrightarrow> fst (nameDistros a b ds) \<noteq> None"
proof (induction ds)
  case Nil
  then show ?case by simp
next
  case (Cons x xs)
  then show ?case
    by (cases x) (auto simp: Let_def split: outcome.splits prod.splits)
qed

lemma cacheDistros_no_nil:
  assumes "cacheDistros h l = (Return None, l')"
  shows "None \<notin> set (distrosCache l')"
proof -
  from assms obtain m2 a b ds where
    nd: "nameDistros a b (distrosCache m2) = (None, ds)" and
    l': "l' = m2\<lparr>distrosCache := ds\<rparr>"
    by (auto simp: cacheDistros_def split: prod.splits outcome.splits option.splits if_splits)
  from nameDistros_no_nil [OF nd] l' show ?thesis by simp
qed

subsection \<open>A response whose error message is empty\<close>

lemma orResultErr_empty_message:
  "Errors r = e # es \<Longrightarrow> Message e = [] \<Longrightarrow> orResultErr None r = Panic IndexOutOfRange"
  by (simp add: orResultErr_def linodeResult_err_def)

lemma serverJob_empty_message:
  assumes "postJob h params (provider l) = (Decoded None r, w)"
    and "Errors r = e # es" and "Message e = []"
  shows "serverJob h s verb params l =
           (Panic IndexOutOfRange, l\<lparr>sent := sent l @ [params], provider := w\<rparr>)"
  using assms by (simp add: serverJob_def do_def orResultErr_empty_message)

lemma removeConfig_empty_message:
  assumes "postResult h (removeConfigParams s c) (provider l) = (Decoded None r, w)"
    and "Errors r = e # es" and "Message e = []"
  shows "removeConfig h s c l =
           (Panic IndexOutOfRange, l\<lparr>sent := sent l @ [removeConfigParams s c], provider := w\<rparr>)"
  using assms by (simp add: removeConfig_def do_def orResultErr_empty_message)

subsection \<open>C1: a failed batch of disk creations\<close>

lemma createDisk_swap_error:
  assumes "distro h img l = (Return (Inr d), l0)"
    and "do (postDiskJobs h) (createDiskParams h server img password d) [] l0 = ((err, r0 # r1 # rs), l1)"
    and "linodeResult_err r0 = Return None"
    and "linodeDiskJobResult.Data r0 = Some root"
    and "linodeResult_err r1 = Return (Some e)"
    and "removeDisks h server [DiskID root] l1 = (Return ignored, l2)"
  shows "createDisk h server img password l =
           (Return (Inl (Errorf (''cannot create Linode disk with '' @ img @ '': '' @ Error e))), l2)"
  using assms by (simp add: createDisk_def)

lemma createDisk_empty_batch:
  assumes "distro h img l = (Return (Inr d), l0)"
    and "do (postDiskJobs h) (createDiskParams h server img password d) [] l0 = ((err, []), l1)"
  shows "createDisk h server img password l =
           (Return (Inl (Errorf (''cannot create Linode disk with '' @ img @ '': empty batch result''))), l1)"
  using assms by (simp add: createDisk_def)

lemma createDisk_empty_message:
  assumes "distro h img l = (Return (Inr d), l0)"
    and "do (postDiskJobs h) (createDiskParams h server img password d) [] l0 = ((err, r0 # r1 # rs), l1)"
    and "linodeResult_err r0 = Return None"
    and "Errors r1 = e # es" and "Message e = []"
  shows "createDisk h server img password l = (Panic IndexOutOfRange, l1)"
  using assms by (simp add: createDisk_def linodeResult_err_def)

text \<open>
  Claim C1. When the root sub-result has no error and carries a disk, and
  \<^verbatim>\<open>linodeResult.err\<close> turns the swap sub-result into an error, \<^verbatim>\<open>createDisk\<close> posts the
  removal of the root disk and returns that error under the text "cannot create Linode
  disk with" (\<open>createDisk_swap_error\<close>); an empty batch gives the error "empty batch
  result" (\<open>createDisk_empty_batch\<close>). A swap sub-result whose error record has an empty
  message is not turned into an error: the normalisation of claim C10 panics inside the
  loop, before the removal (\<open>createDisk_empty_message\<close>). The theorem runs three
  scripts. On \<open>swapEmptyMessage\<close> the call ends in that panic with three requests
  posted, none of them a removal, so root disk 100 stays behind. On \<open>swapNoSpace\<close>,
  the same batch with the message "No space left", the removal of disk 100 is posted
  and the error is returned. On \<open>emptyBatch\<close> the error is "empty batch result".
\<close>

theorem createDisk_leaves_root_at_empty_message:
  "fst (createDisk scripted (machine 2 2) ''ubuntu-16.04'' ''pw'' (start swapEmptyMessage)) =
     Panic IndexOutOfRange \<and>
   sent (snd (createDisk scripted (machine 2 2) ''ubuntu-16.04'' ''pw'' (start swapEmptyMessage))) =
     [[(''api_action'', PStr ''avail.distributions'')], [(''api_action'', PStr ''avail.kernels'')],
      createDiskParams scripted (machine 2 2) ''ubuntu-16.04'' ''pw''
        ((entry 11 ''Ubuntu 16.04 LTS'' 1)\<lparr>linodeDistro.Name := ''ubuntu-16.04'', KernelID := 7\<rparr>)] \<and>
   fst (createDisk scripted (machine 2 2) ''ubuntu-16.04'' ''pw'' (start swapNoSpace)) =
     Return (Inl (Errorf ''cannot create Linode disk with ubuntu-16.04: no space left'')) \<and>
   sent (snd (createDisk scripted (machine 2 2) ''ubuntu-16.04'' ''pw'' (start swapNoSpace))) =
     [[(''api_action'', PStr ''avail.distributions'')], [(''api_action'', PStr ''avail.kernels'')],
      createDiskParams scripted (machine 2 2) ''ubuntu-16.04'' ''pw''
        ((entry 11 ''Ubuntu 16.04 LTS'' 1)\<lparr>linodeDistro.Name := ''ubuntu-16.04'', KernelID := 7\<rparr>),
      removeDisksParams (machine 2 2) [100]] \<and>
   fst (createDisk scripted (machine 2 2) ''ubuntu-16.04'' ''pw'' (start emptyBatch)) =
     Return (Inl (Errorf ''cannot create Linode disk with ubuntu-16.04: empty batch result''))"
  by code_simp

subsection \<open>C2: allocating the first powered-off server\<close>

lemma do_not_fatal: "do post params result l = ((Some e, r), l1) \<Longrightarrow> \<not> isFatal e"
  by (auto simp: do_def split: prod.splits response.splits option.splits)

lemma err_not_fatal: "linodeResult_err r = Return (Some e) \<Longrightarrow> \<not> isFatal e"
  by (auto simp: linodeResult_err_def split: list.splits)

lemma list_not_fatal: "list h l = (Inl e, l1) \<Longrightarrow> \<not> isFatal e"
  by (auto simp: list_def split: prod.splits option.splits dest: do_not_fatal)

lemma ip_not_fatal: "ip h s l = (Return (Inl e), l1) \<Longrightarrow> \<not> isFatal e"
  by (auto simp: ip_def split: prod.splits option.splits outcome.splits dest: do_not_fatal)

lemma serverJob_not_fatal: "serverJob h s verb params l = (Return (Inl e), l1) \<Longrightarrow> \<not> isFatal e"
  by (auto simp: serverJob_def split: prod.splits option.splits outcome.splits)

lemma jobInfo_not_fatal: "jobInfo h s j l = (Return (Inl e), l1) \<Longrightarrow> \<not> isFatal e"
  by (auto simp: jobInfo_def Let_def split: prod.splits option.splits outcome.splits if_splits)

lemma waitJobLoop_not_fatal:
  "waitJobLoop h s verb j ticks infoErr l = (Return (job, Some e), l1) \<Longrightarrow>
     (\<forall>x. infoErr = Some x \<longrightarrow> \<not> isFatal x) \<Longrightarrow> \<not> isFatal e"
proof (induction ticks arbitrary: infoErr l)
  case 0
  then show ?case
    by (auto split: option.splits prod.splits outcome.splits)
next
  case (Suc ticks)
  obtain r1 l0 where a: "jobInfo h s j l = (r1, l0)" by (cases "jobInfo h s j l")
  from Suc.prems(1) a consider
      (finished) m where "e = Errorf m"
    | (again) x where "waitJobLoop h s verb j ticks x l0 = (Return (job, Some e), l1)"
        and "x = infoErr \<or> (\<exists>m. x = Some (Errorf m))"
    by (auto split: outcome.splits sum.splits option.splits if_splits)
  then show ?case
  proof cases
    case finished
    then show ?thesis by simp
  next
    case again
    with Suc.IH [of x l0] Suc.prems(2) show ?thesis by auto
  qed
qed

lemma cacheDistros_not_fatal: "cacheDistros h l = (Return (Some e), l') \<Longrightarrow> \<not> isFatal e"
  by (auto simp: cacheDistros_def split: prod.splits outcome.splits option.splits if_splits)

lemma distro_not_fatal: "distro h img l = (Return (Inl e), l') \<Longrightarrow> \<not> isFatal e"
  by (auto simp: distro_def split: prod.splits outcome.splits option.splits if_splits
           dest: cacheDistros_not_fatal)

lemma createDisk_not_fatal: "createDisk h s img pw l = (Return (Inl e), l') \<Longrightarrow> \<not> isFatal e"
proof -
  assume a: "createDisk h s img pw l = (Return (Inl e), l')"
  obtain r0 l0 where d: "distro h img l = (r0, l0)" by (cases "distro h img l")
  from a d have "(\<exists>m. e = Errorf m) \<or> r0 = Return (Inl e)"
    by (auto simp: createDisk_def Let_def split: prod.splits outcome.splits sum.splits)
  with d show ?thesis by (auto dest: distro_not_fatal)
qed

lemma createConfig_not_fatal: "createConfig h s img r w l = (Return (Inl e), l') \<Longrightarrow> \<not> isFatal e"
proof -
  assume a: "createConfig h s img r w l = (Return (Inl e), l')"
  obtain r0 l0 where d: "distro h img l = (r0, l0)" by (cases "distro h img l")
  from a d have "(\<exists>m. e = Errorf m) \<or> r0 = Return (Inl e)"
    by (auto simp: createConfig_def split: prod.splits outcome.splits sum.splits option.splits)
  with d show ?thesis by (auto dest: distro_not_fatal)
qed

lemma waitJob_not_fatal: "waitJob h s verb j ticks l = (Return (job, Some e), l1) \<Longrightarrow> \<not> isFatal e"
  using waitJobLoop_not_fatal [of h s verb j ticks None l job e l1] by (simp add: waitJob_def)

lemma boot_not_fatal: "boot h s c l = (Return (Inl e), l1) \<Longrightarrow> \<not> isFatal e"
  by (simp add: boot_def serverJob_not_fatal)

lemma setupServer_not_fatal:
  "setupServer h s img pw ticks l = (Return (Inl e), l') \<Longrightarrow> \<not> isFatal e"
  by (auto simp: setupServer_def Let_def
           split: prod.splits outcome.splits sum.splits option.splits
           dest: ip_not_fatal createDisk_not_fatal createConfig_not_fatal boot_not_fatal
                 waitJob_not_fatal)

lemma setupServer_success:
  assumes "setupServer h s img pw ticks l = (Return (Inr s'), l')"
  shows "\<exists>a rootJob swapJob configID bootJob job l1 l2 l3 l4.
           ip h (s\<lparr>Img := img\<rparr>) l = (Return (Inr a), l1) \<and>
           createDisk h (s\<lparr>Img := img, Addr := IPAddress a\<rparr>) img pw l1 =
             (Return (Inr (Some rootJob, Some swapJob)), l2) \<and>
           createConfig h (s\<lparr>Img := img, Addr := IPAddress a, Root := DiskID rootJob,
                              Swap := DiskID swapJob\<rparr>) img (DiskID rootJob) (DiskID swapJob) l2 =
             (Return (Inr configID), l3) \<and>
           s' = s\<lparr>Img := img, Addr := IPAddress a, Root := DiskID rootJob, Swap := DiskID swapJob,
                   Config := configID\<rparr> \<and>
           boot h s' configID l3 = (Return (Inr (Some bootJob)), l4) \<and>
           waitJob h s' ''boot'' (linodeJob.JobID bootJob) ticks l4 = (Return (job, None), l')"
  using assms
  by (auto simp: setupServer_def Let_def
           split: prod.splits outcome.splits sum.splits option.splits)

text \<open>The loop of \<^verbatim>\<open>Allocate\<close> ends in one of three ways.\<close>

lemma allocateLoop_none:
  "\<forall>x \<in> set ss. Status x \<noteq> linodePoweredOff \<Longrightarrow>
     allocateLoop h (map Some ss) img pw ticks l =
       (Return (Inl (Errorf ''no powered off servers in Linode account'')), l)"
  by (induction ss) simp_all

lemma allocateLoop_first:
  "\<forall>x \<in> set pre. Status x \<noteq> linodePoweredOff \<Longrightarrow> Status s = linodePoweredOff \<Longrightarrow>
     allocateLoop h (map Some pre @ Some s # rest) img pw ticks l = setupServer h s img pw ticks l"
  by (induction pre) simp_all

lemma allocateLoop_nil:
  "\<forall>x \<in> set pre. Status x \<noteq> linodePoweredOff \<Longrightarrow>
     allocateLoop h (map Some pre @ None # rest) img pw ticks l = (Panic NilDereference, l)"
  by (induction pre) simp_all

lemma servers_cases:
  fixes servers :: "linodeServer option list"
  shows "(\<exists>ss. servers = map Some ss \<and> (\<forall>x \<in> set ss. Status x \<noteq> linodePoweredOff)) \<or>
         (\<exists>pre s rest. servers = map Some pre @ Some s # rest \<and>
            (\<forall>x \<in> set pre. Status x \<noteq> linodePoweredOff) \<and> Status s = linodePoweredOff) \<or>
         (\<exists>pre rest. servers = map Some pre @ None # rest \<and>
            (\<forall>x \<in> set pre. Status x \<noteq> linodePoweredOff))"
proof (induction servers)
  case Nil
  show ?case by (rule disjI1, rule exI [of _ "[]"]) simp
next
  case (Cons x xs)
  show ?case
  proof (cases x)
    case None
    show ?thesis
      by (rule disjI2, rule disjI2, rule exI [of _ "[]"], rule exI [of _ xs]) (simp add: None)
  next
    case (Some s)
    show ?thesis
    proof (cases "Status s = linodePoweredOff")
      case True
      show ?thesis
        by (rule disjI2, rule disjI1, rule exI [of _ "[]"], rule exI [of _ s], rule exI [of _ xs])
           (simp add: Some True)
    next
      case False
      from Cons.IH consider
          (a) ss where "xs = map Some ss" "\<forall>x \<in> set ss. Status x \<noteq> linodePoweredOff"
        | (b) pre t rest where "xs = map Some pre @ Some t # rest"
            "\<forall>x \<in> set pre. Status x \<noteq> linodePoweredOff" "Status t = linodePoweredOff"
        | (c) pre rest where "xs = map Some pre @ None # rest"
            "\<forall>x \<in> set pre. Status x \<noteq> linodePoweredOff"
        by (elim disjE exE conjE)
      then show ?thesis
      proof cases
        case a
        show ?thesis
          by (rule disjI1, rule exI [of _ "s # ss"]) (simp add: a Some False)
      next
        case b
        show ?thesis
          by (rule disjI2, rule disjI1, rule exI [of _ "s # pre"], rule exI [of _ t],
              rule exI [of _ rest])
             (simp add: b Some False)
      next
        case c
        show ?thesis
          by (rule disjI2, rule disjI2, rule exI [of _ "s # pre"], rule exI [of _ rest])
             (simp add: c Some False)
      qed
    qed
  qed
qed

lemma Allocate_nil_entry:
  assumes "list h l = (Inr (map Some pre @ None # rest), l1)"
    and "\<forall>x \<in> set pre. Status x \<noteq> linodePoweredOff"
  shows "Allocate h img pw ticks l = (Panic NilDereference, l1)"
  using assms by (simp add: Allocate_def allocateLoop_nil)

text \<open>What the steps of a successful \<^verbatim>\<open>setup\<close> post.\<close>

lemma sent_list: "list h l = (r, l1) \<Longrightarrow> sent l1 = sent l @ [listParams]"
  by (auto simp: list_def listParams_def split: prod.splits option.splits dest: sent_do)

lemma sent_ip: "ip h s l = (r, l1) \<Longrightarrow> sent l1 = sent l @ [ipParams s]"
  by (auto simp: ip_def ipParams_def split: prod.splits option.splits outcome.splits dest: sent_do)

lemma sent_boot: "boot h s c l = (r, l1) \<Longrightarrow> sent l1 = sent l @ [bootParams s c]"
  by (simp add: boot_def bootParams_def sent_serverJob)

lemma cache_do: "do post params result l = (r, l1) \<Longrightarrow> distrosCache l1 = distrosCache l"
  by (auto simp: do_def split: prod.splits response.splits option.splits)

lemma sent_tryDistros: "tryDistros h l = (r, l1) \<Longrightarrow> sent l1 = sent l @ [distrosParams]"
  by (auto simp: tryDistros_def split: prod.splits outcome.splits option.splits dest: sent_do)

lemma sent_tryKernels: "tryKernels h l = (r, l1) \<Longrightarrow> sent l1 = sent l @ [kernelsParams]"
  by (auto simp: tryKernels_def split: prod.splits outcome.splits option.splits dest: sent_do)

lemma sent_threeTimes:
  assumes "\<And>l r l1. try l = (r, l1) \<Longrightarrow> sent l1 = sent l @ [p]"
    and "threeTimes try l = (r, l')"
  shows "\<exists>n. 1 \<le> n \<and> n \<le> 3 \<and> sent l' = sent l @ replicate n p"
proof -
  obtain r1 l1 where a: "try l = (r1, l1)" by (cases "try l")
  obtain r2 l2 where b: "try l1 = (r2, l2)" by (cases "try l1")
  obtain r3 l3 where c: "try l2 = (r3, l3)" by (cases "try l2")
  from assms(2) a b c have "l' = l1 \<or> l' = l2 \<or> l' = l3"
    by (auto simp: threeTimes_def split: outcome.splits option.splits)
  then consider "sent l' = sent l @ replicate 1 p" | "sent l' = sent l @ replicate 2 p"
    | "sent l' = sent l @ replicate 3 p"
    using assms(1) [OF a] assms(1) [OF b] assms(1) [OF c]
    by (auto simp: numeral_2_eq_2 numeral_3_eq_3)
  then show ?thesis
  proof cases
    case 1
    then show ?thesis by (intro exI [of _ 1]) simp
  next
    case 2
    then show ?thesis by (intro exI [of _ 2]) simp
  next
    case 3
    then show ?thesis by (intro exI [of _ 3]) simp
  qed
qed

lemma sent_cacheDistros:
  assumes "cacheDistros h l = (r, l')"
  shows "\<exists>cat. sent l' = sent l @ cat \<and> set cat \<subseteq> {distrosParams, kernelsParams}"
proof -
  obtain r1 l1 where a: "fetchDistros h 0 None l = (r1, l1)" by (cases "fetchDistros h 0 None l")
  obtain r2 l2 where b: "fetchKernels h 0 None l1 = (r2, l2)" by (cases "fetchKernels h 0 None l1")
  from a sent_threeTimes [of "tryDistros h" distrosParams l r1 l1] sent_tryDistros
  obtain n where n: "sent l1 = sent l @ replicate n distrosParams"
    unfolding fetchDistros_three_attempts by blast
  from b sent_threeTimes [of "tryKernels h" kernelsParams l1 r2 l2] sent_tryKernels
  obtain m where m: "sent l2 = sent l1 @ replicate m kernelsParams"
    unfolding fetchKernels_three_attempts by blast
  from assms a b have "l' = l1 \<or> l' = l2 \<or> (\<exists>ds. l' = l2\<lparr>distrosCache := ds\<rparr>)"
    by (auto simp: cacheDistros_def split: outcome.splits option.splits prod.splits if_splits)
  then consider "sent l' = sent l @ replicate n distrosParams"
    | "sent l' = sent l @ (replicate n distrosParams @ replicate m kernelsParams)"
    using n m by auto
  then show ?thesis
  proof cases
    case 1
    have "set (replicate n distrosParams) \<subseteq> {distrosParams, kernelsParams}" by auto
    with 1 show ?thesis by blast
  next
    case 2
    have "set (replicate n distrosParams @ replicate m kernelsParams) \<subseteq> {distrosParams, kernelsParams}"
      by auto
    with 2 show ?thesis by blast
  qed
qed

lemma sent_distro:
  assumes "distro h img l = (r, l')"
  shows "\<exists>cat. sent l' = sent l @ cat \<and> set cat \<subseteq> {distrosParams, kernelsParams}"
proof (cases "distrosDone l")
  case True
  with assms distro_cached [of l h img] have "l' = l" by simp
  then have "sent l' = sent l @ [] \<and> set [] \<subseteq> {distrosParams, kernelsParams}" by simp
  then show ?thesis by blast
next
  case False
  obtain r1 l1 where c: "cacheDistros h l = (r1, l1)" by (cases "cacheDistros h l")
  from assms False c have "l' = l1 \<or> l' = l1\<lparr>distrosDone := True\<rparr>"
    by (auto simp: distro_def split: outcome.splits option.splits)
  with sent_cacheDistros [OF c] show ?thesis by auto
qed

text \<open>
  A resolution that has succeeded gives the same entry when it is asked again, also
  after a request that leaves catalog and flag as they are.
\<close>

lemma distro_again:
  assumes "distro h img l = (Return (Inr d), l0)"
    and "distrosCache m = distrosCache l0" and "distrosDone m"
  shows "distro h img m = (Return (Inr d), m)"
proof -
  from assms(1) obtain l1 where
    s: "distroScan (SystemID h img) (distrosCache l1) None = Return (Some d)" and
    l0: "l0 = l1\<lparr>distrosDone := True\<rparr>"
    by (auto simp: distro_def split: prod.splits outcome.splits option.splits if_splits)
  from l0 assms(2) have "distrosCache m = distrosCache l1" by simp
  with s assms(3) show ?thesis by (simp add: distro_def done_idem)
qed

lemma createDisk_success:
  assumes "createDisk h s img pw l = (Return (Inr jobs), l')"
  shows "\<exists>d l0 cat. distro h img l = (Return (Inr d), l0) \<and>
           sent l' = sent l @ cat @ [createDiskParams h s img pw d] \<and>
           set cat \<subseteq> {distrosParams, kernelsParams} \<and>
           distrosDone l' \<and> distrosCache l' = distrosCache l0"
proof -
  from assms obtain d l0 err results where
    d: "distro h img l = (Return (Inr d), l0)" and
    p: "do (postDiskJobs h) (createDiskParams h s img pw d) [] l0 = ((err, results), l')"
    by (auto simp: createDisk_def Let_def split: prod.splits outcome.splits sum.splits)
  from d have dn: "distrosDone l0"
    by (auto simp: distro_def split: prod.splits outcome.splits option.splits if_splits)
  from sent_distro [OF d] obtain cat where
    c: "sent l0 = sent l @ cat" "set cat \<subseteq> {distrosParams, kernelsParams}"
    by blast
  from sent_do [OF p] c(1) have "sent l' = sent l @ cat @ [createDiskParams h s img pw d]" by simp
  with d c(2) dn done_do [OF p] cache_do [OF p] show ?thesis by blast
qed

lemma createConfig_success:
  assumes "createConfig h s img r w l = (Return (Inr c), l')"
    and "distro h img l = (Return (Inr d), l)"
  shows "sent l' = sent l @ [createConfigParams h s img r w d]"
proof -
  from assms obtain err result where
    "do (postConfig h) (createConfigParams h s img r w d)
        \<lparr>Errors = [], linodeConfigResult.Data = \<lparr>ConfigID = 0\<rparr>\<rparr> l = ((err, result), l')"
    by (auto simp: createConfig_def split: prod.splits outcome.splits option.splits)
  from sent_do [OF this] show ?thesis .
qed

text \<open>
  A wait that ends without error has seen the job finished with success at one of its
  polls, and has posted polls only.
\<close>

lemma waitJobLoop_success:
  "waitJobLoop h s verb j ticks infoErr l = (Return (jo, None), l') \<Longrightarrow>
     \<exists>job n. jo = Some job \<and> HostFinish job \<noteq> [] \<and> HostSuccess job = 1 \<and>
             1 \<le> n \<and> n \<le> ticks \<and> sent l' = sent l @ replicate n (jobInfoParams s j)"
proof (induction ticks arbitrary: infoErr l)
  case 0
  then show ?case by (auto split: option.splits prod.splits outcome.splits)
next
  case (Suc ticks)
  obtain r1 l1 where a: "jobInfo h s j l = (r1, l1)" by (cases "jobInfo h s j l")
  note s1 = sent_jobInfo [OF a]
  from Suc.prems a consider
      (finished) job where "jo = Some job" "HostFinish job \<noteq> []" "linodeJobInfo_err job = None"
        "l' = l1"
    | (again) x where "waitJobLoop h s verb j ticks x l1 = (Return (jo, None), l')"
    by (auto split: outcome.splits sum.splits option.splits if_splits)
  then show ?case
  proof cases
    case finished
    from finished(2,3) have "HostSuccess job = 1"
      by (auto simp: linodeJobInfo_err_def split: if_splits list.splits)
    with finished s1 have "jo = Some job \<and> HostFinish job \<noteq> [] \<and> HostSuccess job = 1 \<and>
        1 \<le> (1::nat) \<and> 1 \<le> Suc ticks \<and> sent l' = sent l @ replicate 1 (jobInfoParams s j)"
      by simp
    then show ?thesis by blast
  next
    case again
    from Suc.IH [OF again] obtain job n where
      n: "jo = Some job" "HostFinish job \<noteq> []" "HostSuccess job = 1" "1 \<le> n" "n \<le> ticks"
         "sent l' = sent l1 @ replicate n (jobInfoParams s j)"
      by blast
    from n(6) s1 have "sent l' = sent l @ replicate (Suc n) (jobInfoParams s j)"
      by (simp add: replicate_app_Cons_same)
    with n have "jo = Some job \<and> HostFinish job \<noteq> [] \<and> HostSuccess job = 1 \<and>
        1 \<le> Suc n \<and> Suc n \<le> Suc ticks \<and> sent l' = sent l @ replicate (Suc n) (jobInfoParams s j)"
      by simp
    then show ?thesis by blast
  qed
qed

text \<open>The outcome of \<^verbatim>\<open>Allocate\<close> when it returns a server.\<close>

lemma Allocate_success:
  assumes "Allocate h img pw ticks l = (Return (Inr s'), l')"
  shows "\<exists>pre s rest l1 a rootJob swapJob configID bootJob job l2 l3 l4 l5 d cat n.
           list h l = (Inr (map Some pre @ Some s # rest), l1) \<and>
           (\<forall>x \<in> set pre. Status x \<noteq> linodePoweredOff) \<and> Status s = linodePoweredOff \<and>
           ip h (s\<lparr>Img := img\<rparr>) l1 = (Return (Inr a), l2) \<and>
           createDisk h (s\<lparr>Img := img, Addr := IPAddress a\<rparr>) img pw l2 =
             (Return (Inr (Some rootJob, Some swapJob)), l3) \<and>
           createConfig h (s\<lparr>Img := img, Addr := IPAddress a, Root := DiskID rootJob,
                              Swap := DiskID swapJob\<rparr>) img (DiskID rootJob) (DiskID swapJob) l3 =
             (Return (Inr configID), l4) \<and>
           s' = s\<lparr>Img := img, Addr := IPAddress a, Root := DiskID rootJob, Swap := DiskID swapJob,
                   Config := configID\<rparr> \<and>
           boot h s' configID l4 = (Return (Inr (Some bootJob)), l5) \<and>
           waitJob h s' ''boot'' (linodeJob.JobID bootJob) ticks l5 = (Return (Some job, None), l') \<and>
           HostFinish job \<noteq> [] \<and> HostSuccess job = 1 \<and>
           fst (distro h img l2) = Return (Inr d) \<and>
           set cat \<subseteq> {distrosParams, kernelsParams} \<and> 1 \<le> n \<and> n \<le> ticks \<and>
           sent l' = sent l @ [listParams, ipParams (s\<lparr>Img := img\<rparr>)] @ cat @
             [createDiskParams h (s\<lparr>Img := img, Addr := IPAddress a\<rparr>) img pw d,
              createConfigParams h (s\<lparr>Img := img, Addr := IPAddress a, Root := DiskID rootJob,
                                      Swap := DiskID swapJob\<rparr>) img (DiskID rootJob) (DiskID swapJob) d,
              bootParams s' configID] @
             replicate n (jobInfoParams s' (linodeJob.JobID bootJob))"
proof -
  obtain r0 l1 where li: "list h l = (r0, l1)" by (cases "list h l")
  from assms li obtain servers where r0: "r0 = Inr servers"
    and lp: "allocateLoop h servers img pw ticks l1 = (Return (Inr s'), l')"
    by (cases r0) (auto simp: Allocate_def split: if_splits)
  from servers_cases [of servers] lp obtain pre s rest where
    sv: "servers = map Some pre @ Some s # rest" and
    pre: "\<forall>x \<in> set pre. Status x \<noteq> linodePoweredOff" and off: "Status s = linodePoweredOff"
    by (auto simp: allocateLoop_none allocateLoop_nil)
  from lp sv pre off have su: "setupServer h s img pw ticks l1 = (Return (Inr s'), l')"
    by (simp add: allocateLoop_first)
  from setupServer_success [OF su] obtain a rootJob swapJob configID bootJob jo l2 l3 l4 l5 where
    i: "ip h (s\<lparr>Img := img\<rparr>) l1 = (Return (Inr a), l2)" and
    cd: "createDisk h (s\<lparr>Img := img, Addr := IPAddress a\<rparr>) img pw l2 =
           (Return (Inr (Some rootJob, Some swapJob)), l3)" and
    cc: "createConfig h (s\<lparr>Img := img, Addr := IPAddress a, Root := DiskID rootJob,
                            Swap := DiskID swapJob\<rparr>) img (DiskID rootJob) (DiskID swapJob) l3 =
           (Return (Inr configID), l4)" and
    s': "s' = s\<lparr>Img := img, Addr := IPAddress a, Root := DiskID rootJob, Swap := DiskID swapJob,
                 Config := configID\<rparr>" and
    bt: "boot h s' configID l4 = (Return (Inr (Some bootJob)), l5)" and
    wj: "waitJob h s' ''boot'' (linodeJob.JobID bootJob) ticks l5 = (Return (jo, None), l')"
    by blast
  from waitJobLoop_success [OF wj [unfolded waitJob_def]] obtain job n where
    jo: "jo = Some job" and fin: "HostFinish job \<noteq> []" "HostSuccess job = 1" and
    n: "1 \<le> n" "n \<le> ticks" and
    t5: "sent l' = sent l5 @ replicate n (jobInfoParams s' (linodeJob.JobID bootJob))"
    by blast
  from createDisk_success [OF cd] obtain d l0 cat where
    d: "distro h img l2 = (Return (Inr d), l0)" and
    t3: "sent l3 = sent l2 @ cat @ [createDiskParams h (s\<lparr>Img := img, Addr := IPAddress a\<rparr>) img pw d]" and
    cat: "set cat \<subseteq> {distrosParams, kernelsParams}" and
    dn: "distrosDone l3" and ch: "distrosCache l3 = distrosCache l0"
    by blast
  from createConfig_success [OF cc distro_again [OF d ch dn]]
  have t4: "sent l4 = sent l3 @
      [createConfigParams h (s\<lparr>Img := img, Addr := IPAddress a, Root := DiskID rootJob,
                               Swap := DiskID swapJob\<rparr>) img (DiskID rootJob) (DiskID swapJob) d]" .
  from li r0 sv have f1: "list h l = (Inr (map Some pre @ Some s # rest), l1)" by simp
  from wj jo have f9: "waitJob h s' ''boot'' (linodeJob.JobID bootJob) ticks l5 = (Return (Some job, None), l')"
    by simp
  from d have f12: "fst (distro h img l2) = Return (Inr d)" by simp
  have tr: "sent l' = sent l @ [listParams, ipParams (s\<lparr>Img := img\<rparr>)] @ cat @
             [createDiskParams h (s\<lparr>Img := img, Addr := IPAddress a\<rparr>) img pw d,
              createConfigParams h (s\<lparr>Img := img, Addr := IPAddress a, Root := DiskID rootJob,
                                      Swap := DiskID swapJob\<rparr>) img (DiskID rootJob) (DiskID swapJob) d,
              bootParams s' configID] @
             replicate n (jobInfoParams s' (linodeJob.JobID bootJob))"
    using sent_list [OF li] sent_ip [OF i] t3 t4 sent_boot [OF bt] t5 by simp
  from f1 pre off i cd cc s' bt f9 fin f12 cat n tr show ?thesis by blast
qed

text \<open>
  Claim C2, as amended. \<^verbatim>\<open>Allocate\<close> returns a fatal error exactly when the listing
  succeeds with no server, and the error is then "no servers in Linode account". When
  the list is not empty, has no nil entry and no powered-off server, it returns the plain
  error "no powered off servers in Linode account". When the entries before the first
  powered-off server are servers, it is what \<^verbatim>\<open>setup\<close> does with that server. When it
  returns a server, that one is the first powered-off server of the list, and the
  address, the two disks, the configuration, the reboot and the wait for the boot job
  have each succeeded on it, one after the other in the provider states \<open>l1\<close> to \<open>l'\<close>:
  the job was seen finished with success, and the requests posted are the listing, the
  address request, the catalog requests of the first resolution, the disk batch, the
  configuration, the reboot and between one and \<open>ticks\<close> polls of the boot job, in this
  order and nothing else. The server returned has the image given and the address of
  the public address record, the disk identifiers of the two disk jobs and the
  configuration identifier of the configuration step, each copied as the provider
  answered it: none of them is tested, so that an empty address and identifiers 0 are
  returned as a success.
\<close>

theorem Allocate_first_powered_off:
  "((\<exists>e l'. Allocate h img pw ticks l = (Return (Inl e), l') \<and> isFatal e) \<longleftrightarrow>
      (\<exists>l1. list h l = (Inr [], l1))) \<and>
   (list h l = (Inr [], l1) \<longrightarrow>
      Allocate h img pw ticks l =
        (Return (Inl (FatalError (Errorf ''no servers in Linode account''))), l1)) \<and>
   (list h l = (Inr (map Some ss), l1) \<and> ss \<noteq> [] \<and>
    (\<forall>x \<in> set ss. Status x \<noteq> linodePoweredOff) \<longrightarrow>
      Allocate h img pw ticks l =
        (Return (Inl (Errorf ''no powered off servers in Linode account'')), l1)) \<and>
   (list h l = (Inr (map Some pre @ Some s # rest), l1) \<and>
    (\<forall>x \<in> set pre. Status x \<noteq> linodePoweredOff) \<and> Status s = linodePoweredOff \<longrightarrow>
      Allocate h img pw ticks l = setupServer h s img pw ticks l1) \<and>
   (Allocate h img pw ticks l = (Return (Inr s'), l') \<longrightarrow>
      (\<exists>pre s rest l1 a rootJob swapJob configID bootJob job l2 l3 l4 l5 d cat n.
         list h l = (Inr (map Some pre @ Some s # rest), l1) \<and>
         (\<forall>x \<in> set pre. Status x \<noteq> linodePoweredOff) \<and> Status s = linodePoweredOff \<and>
         ip h (s\<lparr>Img := img\<rparr>) l1 = (Return (Inr a), l2) \<and>
         createDisk h (s\<lparr>Img := img, Addr := IPAddress a\<rparr>) img pw l2 =
           (Return (Inr (Some rootJob, Some swapJob)), l3) \<and>
         createConfig h (s\<lparr>Img := img, Addr := IPAddress a, Root := DiskID rootJob,
                            Swap := DiskID swapJob\<rparr>) img (DiskID rootJob) (DiskID swapJob) l3 =
           (Return (Inr configID), l4) \<and>
         s' = s\<lparr>Img := img, Addr := IPAddress a, Root := DiskID rootJob, Swap := DiskID swapJob,
                 Config := configID\<rparr> \<and>
         boot h s' configID l4 = (Return (Inr (Some bootJob)), l5) \<and>
         waitJob h s' ''boot'' (linodeJob.JobID bootJob) ticks l5 = (Return (Some job, None), l') \<and>
         HostFinish job \<noteq> [] \<and> HostSuccess job = 1 \<and>
         fst (distro h img l2) = Return (Inr d) \<and>
         set cat \<subseteq> {distrosParams, kernelsParams} \<and> 1 \<le> n \<and> n \<le> ticks \<and>
         sent l' = sent l @ [listParams, ipParams (s\<lparr>Img := img\<rparr>)] @ cat @
           [createDiskParams h (s\<lparr>Img := img, Addr := IPAddress a\<rparr>) img pw d,
            createConfigParams h (s\<lparr>Img := img, Addr := IPAddress a, Root := DiskID rootJob,
                                    Swap := DiskID swapJob\<rparr>) img (DiskID rootJob) (DiskID swapJob) d,
            bootParams s' configID] @
           replicate n (jobInfoParams s' (linodeJob.JobID bootJob))))"
proof (intro conjI impI iffI)
  assume "\<exists>e l'. Allocate h img pw ticks l = (Return (Inl e), l') \<and> isFatal e"
  then obtain e l' where a: "Allocate h img pw ticks l = (Return (Inl e), l')" and f: "isFatal e"
    by blast
  obtain r0 l0 where li: "list h l = (r0, l0)" by (cases "list h l")
  show "\<exists>l1. list h l = (Inr [], l1)"
  proof (cases r0)
    case (Inl err)
    with a li f list_not_fatal [of h l err l0] show ?thesis by (simp add: Allocate_def)
  next
    case (Inr servers)
    show ?thesis
    proof (cases "servers = []")
      case True
      with li Inr show ?thesis by simp
    next
      case False
      with a li Inr have lp: "allocateLoop h servers img pw ticks l0 = (Return (Inl e), l')"
        by (simp add: Allocate_def)
      from servers_cases [of servers] lp consider
          (none) "e = Errorf ''no powered off servers in Linode account''"
        | (first) s where "setupServer h s img pw ticks l0 = (Return (Inl e), l')"
        by (auto simp: allocateLoop_none allocateLoop_nil allocateLoop_first)
      then have "\<not> isFatal e"
      proof cases
        case none
        then show ?thesis by simp
      next
        case first
        then show ?thesis by (rule setupServer_not_fatal)
      qed
      with f show ?thesis by simp
    qed
  qed
next
  assume "\<exists>l1. list h l = (Inr [], l1)"
  then show "\<exists>e l'. Allocate h img pw ticks l = (Return (Inl e), l') \<and> isFatal e"
    by (auto simp: Allocate_def)
next
  assume "list h l = (Inr [], l1)"
  then show "Allocate h img pw ticks l =
        (Return (Inl (FatalError (Errorf ''no servers in Linode account''))), l1)"
    by (simp add: Allocate_def)
next
  assume "list h l = (Inr (map Some ss), l1) \<and> ss \<noteq> [] \<and>
    (\<forall>x \<in> set ss. Status x \<noteq> linodePoweredOff)"
  then show "Allocate h img pw ticks l =
        (Return (Inl (Errorf ''no powered off servers in Linode account'')), l1)"
    by (simp add: Allocate_def allocateLoop_none)
next
  assume "list h l = (Inr (map Some pre @ Some s # rest), l1) \<and>
    (\<forall>x \<in> set pre. Status x \<noteq> linodePoweredOff) \<and> Status s = linodePoweredOff"
  then show "Allocate h img pw ticks l = setupServer h s img pw ticks l1"
    by (simp add: Allocate_def allocateLoop_first)
next
  assume "Allocate h img pw ticks l = (Return (Inr s'), l')"
  then show "\<exists>pre s rest l1 a rootJob swapJob configID bootJob job l2 l3 l4 l5 d cat n.
         list h l = (Inr (map Some pre @ Some s # rest), l1) \<and>
         (\<forall>x \<in> set pre. Status x \<noteq> linodePoweredOff) \<and> Status s = linodePoweredOff \<and>
         ip h (s\<lparr>Img := img\<rparr>) l1 = (Return (Inr a), l2) \<and>
         createDisk h (s\<lparr>Img := img, Addr := IPAddress a\<rparr>) img pw l2 =
           (Return (Inr (Some rootJob, Some swapJob)), l3) \<and>
         createConfig h (s\<lparr>Img := img, Addr := IPAddress a, Root := DiskID rootJob,
                            Swap := DiskID swapJob\<rparr>) img (DiskID rootJob) (DiskID swapJob) l3 =
           (Return (Inr configID), l4) \<and>
         s' = s\<lparr>Img := img, Addr := IPAddress a, Root := DiskID rootJob, Swap := DiskID swapJob,
                 Config := configID\<rparr> \<and>
         boot h s' configID l4 = (Return (Inr (Some bootJob)), l5) \<and>
         waitJob h s' ''boot'' (linodeJob.JobID bootJob) ticks l5 = (Return (Some job, None), l') \<and>
         HostFinish job \<noteq> [] \<and> HostSuccess job = 1 \<and>
         fst (distro h img l2) = Return (Inr d) \<and>
         set cat \<subseteq> {distrosParams, kernelsParams} \<and> 1 \<le> n \<and> n \<le> ticks \<and>
         sent l' = sent l @ [listParams, ipParams (s\<lparr>Img := img\<rparr>)] @ cat @
           [createDiskParams h (s\<lparr>Img := img, Addr := IPAddress a\<rparr>) img pw d,
            createConfigParams h (s\<lparr>Img := img, Addr := IPAddress a, Root := DiskID rootJob,
                                    Swap := DiskID swapJob\<rparr>) img (DiskID rootJob) (DiskID swapJob) d,
            bootParams s' configID] @
           replicate n (jobInfoParams s' (linodeJob.JobID bootJob))"
    by (rule Allocate_success)
qed

theorem Allocate_first_powered_off_witness:
  "Allocate scripted ''ubuntu-16.04'' ''pw'' 5 (start noServers) =
     (Return (Inl (FatalError (Errorf ''no servers in Linode account''))), snd (list scripted (start noServers))) \<and>
   Allocate scripted ''ubuntu-16.04'' ''pw'' 5 (start allRunning) =
     (Return (Inl (Errorf ''no powered off servers in Linode account'')), snd (list scripted (start allRunning))) \<and>
   Allocate scripted ''ubuntu-16.04'' ''pw'' 5 (start happy) =
     setupServer scripted (machine 2 2) ''ubuntu-16.04'' ''pw'' 5 (snd (list scripted (start happy))) \<and>
   fst (Allocate scripted ''ubuntu-16.04'' ''pw'' 5 (start happy)) =
     Return (Inr ((machine 2 2)\<lparr>Img := ''ubuntu-16.04'', Addr := ''1.2.3.4'', Root := 100, Swap := 101,
                                Config := 55\<rparr>)) \<and>
   sent (snd (Allocate scripted ''ubuntu-16.04'' ''pw'' 5 (start happy))) =
     [listParams, ipParams (machine 2 2), distrosParams, kernelsParams,
      createDiskParams scripted ((machine 2 2)\<lparr>Img := ''ubuntu-16.04'', Addr := ''1.2.3.4''\<rparr>)
        ''ubuntu-16.04'' ''pw''
        ((entry 11 ''Ubuntu 16.04 LTS'' 1)\<lparr>linodeDistro.Name := ''ubuntu-16.04'', KernelID := 7\<rparr>),
      createConfigParams scripted
        ((machine 2 2)\<lparr>Img := ''ubuntu-16.04'', Addr := ''1.2.3.4'', Root := 100, Swap := 101\<rparr>)
        ''ubuntu-16.04'' 100 101
        ((entry 11 ''Ubuntu 16.04 LTS'' 1)\<lparr>linodeDistro.Name := ''ubuntu-16.04'', KernelID := 7\<rparr>),
      bootParams (machine 2 2) 55, jobInfoParams (machine 2 2) 77, jobInfoParams (machine 2 2) 77] \<and>
   provider (snd (Allocate scripted ''ubuntu-16.04'' ''pw'' 5 (start happy))) = []"
proof -
  have l1: "list scripted (start noServers) = (Inr [], snd (list scripted (start noServers)))"
    by (rule prod_eqI) (code_simp, simp)
  have l2: "list scripted (start allRunning) =
              (Inr (map Some [machine 1 1, machine 2 1]), snd (list scripted (start allRunning)))"
    by (rule prod_eqI) (code_simp, simp)
  have f2: "[machine 1 1, machine 2 1] \<noteq> [] \<and>
            (\<forall>x \<in> set [machine 1 1, machine 2 1]. Status x \<noteq> linodePoweredOff)"
    by (simp add: machine_def linodePoweredOff_def)
  have l3: "list scripted (start happy) =
              (Inr (map Some [machine 1 1] @ Some (machine 2 2) # [Some (machine 3 2)]),
               snd (list scripted (start happy)))"
    by (rule prod_eqI) (code_simp, simp)
  have f3: "(\<forall>x \<in> set [machine 1 1]. Status x \<noteq> linodePoweredOff) \<and>
            Status (machine 2 2) = linodePoweredOff"
    by (simp add: machine_def linodePoweredOff_def)
  have a: "Allocate scripted ''ubuntu-16.04'' ''pw'' 5 (start noServers) =
     (Return (Inl (FatalError (Errorf ''no servers in Linode account''))), snd (list scripted (start noServers)))"
    using Allocate_first_powered_off
            [where h = scripted and img = "''ubuntu-16.04''" and pw = "''pw''" and ticks = 5
               and l = "start noServers" and ?l1.0 = "snd (list scripted (start noServers))",
             THEN conjunct2, THEN conjunct1, THEN mp, OF l1] .
  have b: "Allocate scripted ''ubuntu-16.04'' ''pw'' 5 (start allRunning) =
     (Return (Inl (Errorf ''no powered off servers in Linode account'')), snd (list scripted (start allRunning)))"
    using Allocate_first_powered_off
            [where h = scripted and img = "''ubuntu-16.04''" and pw = "''pw''" and ticks = 5
               and l = "start allRunning" and ?l1.0 = "snd (list scripted (start allRunning))"
               and ss = "[machine 1 1, machine 2 1]",
             THEN conjunct2, THEN conjunct2, THEN conjunct1, THEN mp] l2 f2
    by blast
  have c: "Allocate scripted ''ubuntu-16.04'' ''pw'' 5 (start happy) =
     setupServer scripted (machine 2 2) ''ubuntu-16.04'' ''pw'' 5 (snd (list scripted (start happy)))"
    using Allocate_first_powered_off
            [where h = scripted and img = "''ubuntu-16.04''" and pw = "''pw''" and ticks = 5
               and l = "start happy" and ?l1.0 = "snd (list scripted (start happy))"
               and pre = "[machine 1 1]" and s = "machine 2 2" and rest = "[Some (machine 3 2)]",
             THEN conjunct2, THEN conjunct2, THEN conjunct2, THEN conjunct1, THEN mp] l3 f3
    by blast
  have d: "fst (Allocate scripted ''ubuntu-16.04'' ''pw'' 5 (start happy)) =
     Return (Inr ((machine 2 2)\<lparr>Img := ''ubuntu-16.04'', Addr := ''1.2.3.4'', Root := 100, Swap := 101,
                                Config := 55\<rparr>))"
    by code_simp
  have e: "sent (snd (Allocate scripted ''ubuntu-16.04'' ''pw'' 5 (start happy))) =
     [listParams, ipParams (machine 2 2), distrosParams, kernelsParams,
      createDiskParams scripted ((machine 2 2)\<lparr>Img := ''ubuntu-16.04'', Addr := ''1.2.3.4''\<rparr>)
        ''ubuntu-16.04'' ''pw''
        ((entry 11 ''Ubuntu 16.04 LTS'' 1)\<lparr>linodeDistro.Name := ''ubuntu-16.04'', KernelID := 7\<rparr>),
      createConfigParams scripted
        ((machine 2 2)\<lparr>Img := ''ubuntu-16.04'', Addr := ''1.2.3.4'', Root := 100, Swap := 101\<rparr>)
        ''ubuntu-16.04'' 100 101
        ((entry 11 ''Ubuntu 16.04 LTS'' 1)\<lparr>linodeDistro.Name := ''ubuntu-16.04'', KernelID := 7\<rparr>),
      bootParams (machine 2 2) 55, jobInfoParams (machine 2 2) 77, jobInfoParams (machine 2 2) 77]"
    by code_simp
  have f: "provider (snd (Allocate scripted ''ubuntu-16.04'' ''pw'' 5 (start happy))) = []"
    by code_simp
  from a b c d e f show ?thesis by blast
qed

text \<open>
  The claim as it was stated asks for a server whose address and identifiers are
  populated. On \<open>blankAnswers\<close> every step succeeds and the server returned has an empty
  address and the identifier 0 for both disks and the configuration. It also asks for a
  plain error whenever the list is not empty and has no powered-off server: on
  \<open>nullServer\<close>, a list of one nil entry, the loop panics at \<^verbatim>\<open>server.Status\<close>
  (\<open>Allocate_nil_entry\<close>).
\<close>

theorem Allocate_returns_blank_server:
  "fst (Allocate scripted ''ubuntu-16.04'' ''pw'' 5 (start blankAnswers)) =
     Return (Inr \<lparr>linodeServer.ID = 2, linodeServer.Label = ''box'', Status = 2, Addr = [],
                  Img = ''ubuntu-16.04'', Config = 0, Root = 0, Swap = 0\<rparr>) \<and>
   provider (snd (Allocate scripted ''ubuntu-16.04'' ''pw'' 5 (start blankAnswers))) = [] \<and>
   fst (Allocate scripted ''ubuntu-16.04'' ''pw'' 5 (start nullServer)) = Panic NilDereference"
  by code_simp

subsection \<open>C3: waiting for a job\<close>

lemma waitJob_deadline_after_error:
  "waitJobLoop h s verb j 0 (Some e) l = (Return (None, Some e), l)"
  by simp

lemma waitJob_deadline_timeout:
  assumes "removeConfig h s (Config s) l = (Return ignored1, l1)"
    and "removeDisks h s [Root s, Swap s] l1 = (Return ignored2, l2)"
  shows "waitJobLoop h s verb j 0 None l =
           (Return (None, Some (Errorf (''timeout waiting for '' @ linodeServer_String h l2 s
                                          @ '' to '' @ verb))), l2)"
  using assms by simp

lemma waitJob_finished:
  assumes "jobInfo h s j l = (Return (Inr (Some job)), l1)" and "HostFinish job \<noteq> []"
  shows "waitJobLoop h s verb j (Suc ticks) infoErr l =
           (Return (Some job,
                    (if HostSuccess job = 1 then None
                     else Some (Errorf (''cannot '' @ verb @ '' '' @ linodeServer_String h l1 s @ '': '' @
                            (case HostMessage job of
                               c # cs \<Rightarrow> lowerFirst c cs
                             | [] \<Rightarrow> ''job '' @ strconv_Itoa (linodeJobInfo.JobID job) @ '' failed silently''))))),
            l1)"
  using assms by (simp add: linodeJobInfo_err_def split: list.splits)

lemma waitJob_requests:
  "waitJobLoop h s verb j ticks infoErr l = (r, l') \<Longrightarrow>
     \<exists>new. sent l' = sent l @ new \<and>
           set new \<subseteq> {jobInfoParams s j, removeConfigParams s (Config s),
                      removeDisksParams s [Root s, Swap s]}"
proof (induction ticks arbitrary: infoErr l)
  case 0
  show ?case
  proof (cases infoErr)
    case (Some e)
    with 0 show ?thesis by simp
  next
    case None
    obtain r1 l1 where a: "removeConfig h s (Config s) l = (r1, l1)" by (cases "removeConfig h s (Config s) l")
    obtain r2 l2 where b: "removeDisks h s [Root s, Swap s] l1 = (r2, l2)"
      by (cases "removeDisks h s [Root s, Swap s] l1")
    from 0 None a b have "l' = l1 \<or> l' = l2"
      by (auto split: outcome.splits)
    with sent_removeConfig [OF a] sent_removeDisks [OF b] show ?thesis by auto
  qed
next
  case (Suc ticks)
  obtain r1 l1 where a: "jobInfo h s j l = (r1, l1)" by (cases "jobInfo h s j l")
  from Suc.prems a consider "l' = l1" | e where "waitJobLoop h s verb j ticks e l1 = (r, l')"
    by (auto split: outcome.splits sum.splits if_splits option.splits)
  then show ?case
  proof cases
    case 1
    with sent_jobInfo [OF a] show ?thesis by simp
  next
    case 2
    from Suc.IH [OF 2] obtain new where
      "sent l' = sent l1 @ new"
      "set new \<subseteq> {jobInfoParams s j, removeConfigParams s (Config s), removeDisksParams s [Root s, Swap s]}"
      by blast
    with sent_jobInfo [OF a] show ?thesis by simp
  qed
qed

lemma waitJob_never_shuts_down:
  assumes "waitJobLoop h s verb j ticks infoErr l = (r, l')"
  shows "\<exists>new. sent l' = sent l @ new \<and>
           (\<forall>p \<in> set new. map_of p ''api_action'' \<noteq> Some (PStr ''linode.shutdown''))"
proof -
  from waitJob_requests [OF assms] obtain new where
    n: "sent l' = sent l @ new"
       "set new \<subseteq> {jobInfoParams s j, removeConfigParams s (Config s), removeDisksParams s [Root s, Swap s]}"
    by blast
  have "\<forall>p \<in> set new. map_of p ''api_action'' \<noteq> Some (PStr ''linode.shutdown'')"
    using n(2) by (auto simp: jobInfoParams_def removeConfigParams_def removeDisksParams_def)
  with n(1) show ?thesis by blast
qed

lemma waitJob_deadline_empty_message:
  assumes "postResult h (removeConfigParams s (Config s)) (provider l) = (Decoded None r, w)"
    and "Errors r = e # es" and "Message e = []"
  shows "waitJobLoop h s verb j 0 None l =
           (Panic IndexOutOfRange,
            l\<lparr>sent := sent l @ [removeConfigParams s (Config s)], provider := w\<rparr>)"
  using removeConfig_empty_message [OF assms] by simp

text \<open>
  Claim C3. At the deadline \<^verbatim>\<open>waitJob\<close> returns the error kept from the last failed
  poll and posts nothing (\<open>waitJob_deadline_after_error\<close>); with no such error it posts
  the removal of the configuration and of both disks and returns the timeout error,
  provided both removals return (\<open>waitJob_deadline_timeout\<close>); a poll that sees a finish
  time returns at once, with the job's error if it failed (\<open>waitJob_finished\<close>); and no
  run posts a shutdown (\<open>waitJob_never_shuts_down\<close>). The rollback does not ignore every
  error of the removals: a response to the removal of the configuration whose error
  record has an empty message makes the normalisation of claim C10 panic
  (\<open>waitJob_deadline_empty_message\<close>). The theorem runs three scripts of eleven polls.
  On \<open>rollbackEmptyMessage\<close> the job is running at every poll and the run ends in that
  panic with the removal of the configuration posted, the disks not removed and no
  timeout error returned. On \<open>rollbackRefused\<close>, where the refusal has a message, both
  removals are posted and the timeout error is returned. On \<open>pollsFail\<close> every poll
  fails and the last poll error is returned without rollback.
\<close>

theorem waitJob_rollback_stops_at_empty_message:
  "fst (waitJob scripted installed ''boot'' 77 11 (start rollbackEmptyMessage)) = Panic IndexOutOfRange \<and>
   sent (snd (waitJob scripted installed ''boot'' 77 11 (start rollbackEmptyMessage))) =
     replicate 11 (jobInfoParams installed 77) @ [removeConfigParams installed 55] \<and>
   fst (waitJob scripted installed ''boot'' 77 11 (start rollbackRefused)) =
     Return (None, Some (Errorf ''timeout waiting for linode:ubuntu-16.04 (box) to boot'')) \<and>
   sent (snd (waitJob scripted installed ''boot'' 77 11 (start rollbackRefused))) =
     replicate 11 (jobInfoParams installed 77) @
     [removeConfigParams installed 55, removeDisksParams installed [100, 101]] \<and>
   fst (waitJob scripted installed ''boot'' 77 11 (start pollsFail)) =
     Return (None, Some (Errorf (''cannot boot linode:ubuntu-16.04 (box): '' @
        ''cannot get job details for linode:ubuntu-16.04 (box): '' @
        ''cannot read Linode response: reset''))) \<and>
   sent (snd (waitJob scripted installed ''boot'' 77 11 (start pollsFail))) =
     replicate 11 (jobInfoParams installed 77)"
  by code_simp

subsection \<open>C4: populating the catalog once\<close>

lemma distro_success_is_cached:
  assumes "distro h img l = (Return (Inr d), l')"
  shows "distrosDone l' \<and> (\<forall>img'. snd (distro h img' l') = l')"
proof -
  from assms have "distrosDone l'"
    by (auto simp: distro_def split: prod.splits outcome.splits option.splits if_splits)
  with distro_cached show ?thesis by blast
qed

lemma distro_failure_not_cached:
  assumes "\<not> distrosDone l" and "cacheDistros h l = (Return (Some e), l1)"
  shows "distro h img l = (Return (Inl e), l1) \<and> \<not> distrosDone l1 \<and>
         distro h img' l1 =
           (case cacheDistros h l1 of
              (Panic p, l2) \<Rightarrow> (Panic p, l2)
            | (Return (Some err), l2) \<Rightarrow> (Return (Inl err), l2)
            | (Return None, l2) \<Rightarrow>
                (case distroScan (SystemID h img') (distrosCache l2) None of
                   Panic p \<Rightarrow> (Panic p, l2\<lparr>distrosDone := True\<rparr>)
                 | Return None \<Rightarrow> (Return (Inl (Errorf ''cannot find system %!s(MISSING) in Linode'')),
                                   l2\<lparr>distrosDone := True\<rparr>)
                 | Return (Some d) \<Rightarrow> (Return (Inr d), l2\<lparr>distrosDone := True\<rparr>)))"
proof -
  from done_cacheDistros [OF assms(2)] assms(1) have n: "\<not> distrosDone l1" by simp
  from assms show ?thesis
    using n by (simp add: distro_def)
qed

lemma tryDistros_empty_message:
  assumes "postDistros h distrosParams (provider l) = (Decoded None r, w)"
    and "Errors r = e # es" and "Message e = []"
  shows "tryDistros h l =
           (Panic IndexOutOfRange, l\<lparr>sent := sent l @ [distrosParams], provider := w\<rparr>)"
  using assms by (simp add: tryDistros_def do_def orResultErr_empty_message)

lemma cacheDistros_empty_message:
  assumes "postDistros h distrosParams (provider l) = (Decoded None r, w)"
    and "Errors r = e # es" and "Message e = []"
  shows "cacheDistros h l =
           (Panic IndexOutOfRange, l\<lparr>sent := sent l @ [distrosParams], provider := w\<rparr>)"
  using tryDistros_empty_message [OF assms]
  by (simp add: cacheDistros_def fetchDistros_three_attempts threeTimes_def)

text \<open>
  Claim C4. A resolution that succeeds leaves the flag set, and every later resolution
  leaves the provider value as it is, posting nothing (\<open>distro_success_is_cached\<close>). Each
  list is fetched by at most three attempts that stop at the first success and give the
  last error when all three return one (\<open>fetchDistros_three_attempts\<close>,
  \<open>fetchKernels_three_attempts\<close>). A population that returns an error leaves the flag
  unset and the next resolution populates again (\<open>distro_failure_not_cached\<close>). The last
  error is not always surfaced: an attempt whose response carries an error record with
  an empty message makes the normalisation of claim C10 panic
  (\<open>cacheDistros_empty_message\<close>). The theorem runs three scripts. On
  \<open>thirdEmptyMessage\<close>, two failed POSTs and then such a response, population ends in
  that panic after three requests. On \<open>thirdUnavailable\<close>, with a message in the third
  response, it returns the error after three requests and the flag stays unset. On
  \<open>catalog\<close> the first resolution posts the two catalog requests and the second posts
  none.
\<close>

theorem cacheDistros_third_attempt_empty_message:
  "fst (cacheDistros scripted (start thirdEmptyMessage)) = Panic IndexOutOfRange \<and>
   sent (snd (cacheDistros scripted (start thirdEmptyMessage))) =
     [distrosParams, distrosParams, distrosParams] \<and>
   fst (cacheDistros scripted (start thirdUnavailable)) =
     Return (Some (Errorf ''cannot list Linode distributions: service unavailable'')) \<and>
   sent (snd (cacheDistros scripted (start thirdUnavailable))) =
     [distrosParams, distrosParams, distrosParams] \<and>
   \<not> distrosDone (snd (distro scripted ''ubuntu-16.04'' (start thirdUnavailable))) \<and>
   sent (snd (distro scripted ''ubuntu-16.04'' (start catalog))) = [distrosParams, kernelsParams] \<and>
   sent (snd (distro scripted ''arch-2016.01'' (snd (distro scripted ''ubuntu-16.04'' (start catalog))))) =
     [distrosParams, kernelsParams]"
  by code_simp

subsection \<open>C5: resolution in a populated catalog\<close>

lemma distroScan_find:
  "distroScan system ds best =
     (case find (\<lambda>x. case x of None \<Rightarrow> True
                       | Some d \<Rightarrow> linodeDistro.Name d = system \<and> Is64Bit d = 1) ds of
        Some (Some d) \<Rightarrow> Return (Some d)
      | Some None \<Rightarrow> Panic NilDereference
      | None \<Rightarrow> Return (case filter (\<lambda>d. linodeDistro.Name d = system) (present ds) of
                          [] \<Rightarrow> best
                        | m # ms \<Rightarrow> Some (last (m # ms))))"
proof (induction ds arbitrary: best)
  case Nil
  show ?case by simp
next
  case (Cons x ds)
  show ?case
  proof (cases x)
    case None
    then show ?thesis by simp
  next
    case (Some d)
    show ?thesis
    proof (cases "linodeDistro.Name d = system")
      case False
      with Some show ?thesis using Cons.IH [of best] by (simp split: option.splits list.splits)
    next
      case True
      show ?thesis
      proof (cases "Is64Bit d = 1")
        case True
        with Some \<open>linodeDistro.Name d = system\<close> show ?thesis by simp
      next
        case False
        with Some True show ?thesis using Cons.IH [of "Some d"]
          by (simp split: option.splits list.splits)
      qed
    qed
  qed
qed

text \<open>
  A catalog whose flag is set has no nil entry: the flag is set only after the naming
  loop of \<^verbatim>\<open>cacheDistros\<close> has read every entry.
\<close>

lemma distro_keeps_no_nil:
  assumes "distrosDone l \<longrightarrow> None \<notin> set (distrosCache l)"
    and "distro h img l = (r, l')"
  shows "distrosDone l' \<longrightarrow> None \<notin> set (distrosCache l')"
proof (cases "distrosDone l")
  case True
  with assms(2) distro_cached [of l h img] have "l' = l" by simp
  with assms(1) show ?thesis by simp
next
  case False
  obtain r1 l1 where c: "cacheDistros h l = (r1, l1)" by (cases "cacheDistros h l")
  from done_cacheDistros [OF c] False have n: "\<not> distrosDone l1" by simp
  from assms(2) False c consider "l' = l1" | "r1 = Return None" "l' = l1\<lparr>distrosDone := True\<rparr>"
    by (auto simp: distro_def split: outcome.splits option.splits)
  then show ?thesis
  proof cases
    case 1
    with n show ?thesis by simp
  next
    case 2
    with c cacheDistros_no_nil [of h l l1] show ?thesis by simp
  qed
qed

text \<open>
  Claim C5. Once the catalog is populated, \<^verbatim>\<open>distro\<close> answers from the cache alone and
  leaves the provider value as it is: among the entries whose name is the system of the
  image it returns the first 64-bit one; if there is none, the last entry of that name;
  and if no entry has that name, the error that the system cannot be found. The
  statement is about every provider value whose flag is set, so it also says what the
  loop does at a nil entry that it reaches; a catalog populated by \<^verbatim>\<open>cacheDistros\<close>
  has none (\<open>distro_keeps_no_nil\<close>).
\<close>

theorem distro_prefers_64bit:
  assumes "distrosDone l"
  shows "distro h img l =
     (case find (\<lambda>x. case x of None \<Rightarrow> True
                       | Some d \<Rightarrow> linodeDistro.Name d = SystemID h img \<and> Is64Bit d = 1)
                (distrosCache l) of
        Some (Some d) \<Rightarrow> (Return (Inr d), l)
      | Some None \<Rightarrow> (Panic NilDereference, l)
      | None \<Rightarrow>
          (case filter (\<lambda>d. linodeDistro.Name d = SystemID h img) (present (distrosCache l)) of
             [] \<Rightarrow> (Return (Inl (Errorf ''cannot find system %!s(MISSING) in Linode'')), l)
           | m # ms \<Rightarrow> (Return (Inr (last (m # ms))), l)))"
  using assms
  by (simp add: distro_def distroScan_find done_idem split: option.splits list.splits)

theorem distro_prefers_64bit_witness:
  "distrosDone (snd (distro scripted ''arch-2016.01'' (start catalog))) \<and>
   fst (distro scripted ''ubuntu-16.04'' (snd (distro scripted ''arch-2016.01'' (start catalog)))) =
     Return (Inr ((entry 11 ''Ubuntu 16.04 LTS'' 1)\<lparr>linodeDistro.Name := ''ubuntu-16.04'', KernelID := 7\<rparr>))"
proof -
  let ?l = "snd (distro scripted ''arch-2016.01'' (start catalog))"
  have d: "distrosDone ?l" by code_simp
  have f: "find (\<lambda>x. case x of None \<Rightarrow> True
                      | Some d \<Rightarrow> linodeDistro.Name d = SystemID scripted ''ubuntu-16.04'' \<and> Is64Bit d = 1)
             (distrosCache ?l) =
           Some (Some ((entry 11 ''Ubuntu 16.04 LTS'' 1)\<lparr>linodeDistro.Name := ''ubuntu-16.04'', KernelID := 7\<rparr>))"
    by code_simp
  show ?thesis
    using d distro_prefers_64bit [OF d, of scripted "''ubuntu-16.04''"] unfolding f by simp
qed

subsection \<open>C6: the kernels chosen by population\<close>

lemma latestKernels_last:
  "latestKernels (map Some ks) a b =
     Return ((case kernelsNamed ''Latest 32 bit'' ks of [] \<Rightarrow> a | m # ms \<Rightarrow> linodeKernel.ID (last (m # ms))),
             (case kernelsNamed ''Latest 64 bit'' ks of [] \<Rightarrow> b | m # ms \<Rightarrow> linodeKernel.ID (last (m # ms))))"
proof (induction ks arbitrary: a b)
  case Nil
  show ?case by (simp add: kernelsNamed_def)
next
  case (Cons k ks)
  show ?case
    unfolding list.map latestKernels.simps Cons.IH
    by (simp add: kernelsNamed_def split: list.splits)
qed

lemma latestKernels_nil: "None \<in> set ks \<Longrightarrow> latestKernels ks a b = Panic NilDereference"
proof (induction ks arbitrary: a b)
  case Nil
  then show ?case by simp
next
  case (Cons k ks)
  then show ?case by (cases k) auto
qed

lemma cacheDistros_success_kernels:
  assumes "cacheDistros h l = (Return None, l')"
  shows "None \<notin> set (kernelsCache l') \<and>
         kernelsNamed ''Latest 64 bit'' (present (kernelsCache l')) \<noteq> [] \<and>
         kernelsNamed ''Latest 32 bit'' (present (kernelsCache l')) \<noteq> [] \<and>
         (\<forall>d \<in> set (present (distrosCache l')).
            KernelID d =
              (if Is64Bit d = 1
               then linodeKernel.ID (last (kernelsNamed ''Latest 64 bit'' (present (kernelsCache l'))))
               else linodeKernel.ID (last (kernelsNamed ''Latest 32 bit'' (present (kernelsCache l'))))))"
proof -
  from assms obtain m2 a b ds where
    f2: "latestKernels (kernelsCache m2) (- 1) (- 1) = Return (a, b)" and
    ne: "a \<noteq> - 1" "b \<noteq> - 1" and
    nd: "nameDistros a b (distrosCache m2) = (None, ds)" and
    l': "l' = m2\<lparr>distrosCache := ds\<rparr>"
    by (auto simp: cacheDistros_def split: prod.splits outcome.splits option.splits if_splits)
  have kc: "kernelsCache l' = kernelsCache m2" and dc: "distrosCache l' = ds"
    using l' by simp_all
  from f2 latestKernels_nil [of "kernelsCache m2" "- 1" "- 1"]
  have nn: "None \<notin> set (kernelsCache l')"
    unfolding kc by auto
  then have ks: "kernelsCache m2 = map Some (present (kernelsCache l'))"
    unfolding kc by (rule no_nil_present)
  note f3 = f2 [unfolded ks latestKernels_last]
  from f3 ne have n64: "kernelsNamed ''Latest 64 bit'' (present (kernelsCache l')) \<noteq> []"
    by (auto split: list.splits)
  from f3 ne have n32: "kernelsNamed ''Latest 32 bit'' (present (kernelsCache l')) \<noteq> []"
    by (auto split: list.splits)
  have a: "a = linodeKernel.ID (last (kernelsNamed ''Latest 32 bit'' (present (kernelsCache l'))))"
    using f3 n32 by (auto split: list.splits)
  have b: "b = linodeKernel.ID (last (kernelsNamed ''Latest 64 bit'' (present (kernelsCache l'))))"
    using f3 n64 by (auto split: list.splits)
  have "\<forall>d \<in> set (present (distrosCache l')).
         KernelID d =
           (if Is64Bit d = 1
            then linodeKernel.ID (last (kernelsNamed ''Latest 64 bit'' (present (kernelsCache l'))))
            else linodeKernel.ID (last (kernelsNamed ''Latest 32 bit'' (present (kernelsCache l')))))"
    using nameDistros_kernel [OF nd] a b unfolding dc by (simp add: set_present)
  with nn n64 n32 show ?thesis by blast
qed

lemma cacheDistros_no_kernel:
  assumes "fetchDistros h 0 None l = (Return None, l1)"
    and "fetchKernels h 0 None l1 = (Return None, l2)"
    and "None \<notin> set (kernelsCache l2)"
    and "kernelsNamed ''Latest 64 bit'' (present (kernelsCache l2)) = [] \<or>
         kernelsNamed ''Latest 32 bit'' (present (kernelsCache l2)) = []"
  shows "cacheDistros h l = (Return (Some (Errorf ''cannot find latest Linode kernel'')), l2)"
proof -
  define ks where "ks = present (kernelsCache l2)"
  from assms(3) have kc: "kernelsCache l2 = map Some ks"
    unfolding ks_def by (rule no_nil_present)
  from assms(4) have "kernelsNamed ''Latest 64 bit'' ks = [] \<or> kernelsNamed ''Latest 32 bit'' ks = []"
    unfolding ks_def .
  then have "\<exists>a b. latestKernels (map Some ks) (- 1) (- 1) = Return (a, b) \<and> (a = - 1 \<or> b = - 1)"
    unfolding latestKernels_last by auto
  with assms(1,2) kc show ?thesis
    by (auto simp: cacheDistros_def)
qed

lemma cacheDistros_nil_kernel:
  assumes "fetchDistros h 0 None l = (Return None, l1)"
    and "fetchKernels h 0 None l1 = (Return None, l2)"
    and "None \<in> set (kernelsCache l2)"
  shows "cacheDistros h l = (Panic NilDereference, l2)"
  using assms by (simp add: cacheDistros_def latestKernels_nil)

text \<open>
  Claim C6. When \<^verbatim>\<open>cacheDistros\<close> succeeds, both label prefixes occur among the
  kernels, every entry with \<^verbatim>\<open>Is64Bit == 1\<close> has the identifier of the last kernel
  whose label starts with "Latest 64 bit" and every other entry that of the last kernel
  whose label starts with "Latest 32 bit" (\<open>cacheDistros_success_kernels\<close>). When both
  lists have been fetched, the list of kernels has no nil entry and one of the prefixes
  occurs in no label, \<^verbatim>\<open>cacheDistros\<close> fails with the error that the latest kernel cannot
  be found (\<open>cacheDistros_no_kernel\<close>). This does not hold over any list of kernels:
  the list is a slice of pointers, the loop reads \<^verbatim>\<open>kernel.Label\<close> of every entry
  without a test for nil, and at a nil entry population panics
  (\<open>cacheDistros_nil_kernel\<close>). The theorem runs three scripts. On \<open>nullKernel\<close>, where
  the answer to the request for the kernels is an array of one \<^verbatim>\<open>null\<close>, both lists are
  fetched, no label has either prefix, and population ends in the panic, not in the
  error. On \<open>catalogNo32\<close>, which has a 64-bit kernel only, the error is returned. On
  \<open>catalog\<close> population succeeds, the 32-bit entry has kernel 3, the last of the two
  kernels of the 32-bit prefix, and the two 64-bit entries have kernel 7.
\<close>

theorem cacheDistros_panics_at_nil_kernel:
  "fst (cacheDistros scripted (start nullKernel)) = Panic NilDereference \<and>
   sent (snd (cacheDistros scripted (start nullKernel))) = [distrosParams, kernelsParams] \<and>
   kernelsCache (snd (cacheDistros scripted (start nullKernel))) = [None] \<and>
   fst (cacheDistros scripted (start catalogNo32)) =
     Return (Some (Errorf ''cannot find latest Linode kernel'')) \<and>
   fst (cacheDistros scripted (start catalog)) = Return None \<and>
   map (map_option Is64Bit) (distrosCache (snd (cacheDistros scripted (start catalog)))) =
     [Some 0, Some 1, Some 1] \<and>
   map (map_option KernelID) (distrosCache (snd (cacheDistros scripted (start catalog)))) =
     [Some 3, Some 7, Some 7]"
  by code_simp

subsection \<open>C7: the canonical name of a distribution\<close>

lemma distroName_words:
  assumes "strings_Fields (strings_ToLower lbl) = w1 # w2 # ws"
  shows "distroName lbl =
           Return (if ws \<noteq> [] \<and> w2 = ''linux'' then w1 @ ''-'' @ hd ws else w1 @ ''-'' @ w2)"
  using assms by (cases ws) (simp_all add: distroName_def)

lemma distroName_short:
  assumes "length (strings_Fields (strings_ToLower lbl)) < 2"
  shows "distroName lbl = Panic IndexOutOfRange"
  using assms by (simp add: distroName_def Let_def)

text \<open>
  Claim C7. The name is the first word of the lower-cased label, a hyphen, and the
  third word when there are more than two words and the second is "linux", the second
  word otherwise (\<open>distroName_words\<close>). This holds for labels of at least two words
  only: \<^verbatim>\<open>label[1]\<close> is read without a test of the length, so on the label "Debian"
  the computation of the name panics, and with it \<^verbatim>\<open>cacheDistros\<close> and every
  resolution that has to populate the catalog. The two labels named in the claim give
  "ubuntu-16.04" and "arch-2016.01".
\<close>

theorem distroName_panics_on_one_word:
  "distroName ''Debian'' = Panic IndexOutOfRange \<and>
   fst (cacheDistros scripted (start oneWord)) = Panic IndexOutOfRange \<and>
   fst (distro scripted ''ubuntu-16.04'' (start oneWord)) = Panic IndexOutOfRange \<and>
   distroName ''Ubuntu 16.04 LTS'' = Return ''ubuntu-16.04'' \<and>
   distroName ''Arch Linux 2016.01'' = Return ''arch-2016.01''"
  by code_simp

subsection \<open>C8: reuse data\<close>

lemma yamlSetField_Status: "yamlSetField k v s = Inr s1 \<Longrightarrow> Status s1 = Status s"
  by (auto simp: yamlSetField_def yamlInt_def yamlStr_def split: if_splits yaml.splits)

lemma yamlSetFields_Status: "yamlSetFields kvs s = Inr s1 \<Longrightarrow> Status s1 = Status s"
proof (induction kvs arbitrary: s)
  case Nil
  then show ?case by simp
next
  case (Cons kv kvs)
  obtain k v where kv: "kv = (k, v)" by (cases kv)
  from Cons.prems kv obtain s2 where a: "yamlSetField k v s = Inr s2" and b: "yamlSetFields kvs s2 = Inr s1"
    by (auto split: sum.splits)
  from Cons.IH [OF b] yamlSetField_Status [OF a] show ?case by simp
qed

text \<open>
  Claim C8. \<^verbatim>\<open>Reuse\<close> applied to the document written by \<^verbatim>\<open>ReuseData\<close> gives the same
  server with \<^verbatim>\<open>Status\<close> at zero, so address, image, root disk, swap disk and
  configuration are those of the original. The document does not depend on \<^verbatim>\<open>Status\<close>
  and has no entry for it, and whatever document \<^verbatim>\<open>Reuse\<close> reads, the server it
  returns has \<^verbatim>\<open>Status\<close> zero.
\<close>

theorem Reuse_of_ReuseData:
  "(\<exists>data. ReuseData s = Return data \<and> Reuse data password = Inr (s\<lparr>Status := 0\<rparr>)) \<and>
   ReuseData (s\<lparr>Status := st\<rparr>) = ReuseData s \<and>
   (\<exists>kvs. ReuseData s = Return (YMap kvs) \<and>
      map fst kvs = [''id'', ''label'', ''address'', ''image'', ''config'', ''root'', ''swap'']) \<and>
   (Reuse d password = Inr s' \<longrightarrow> Status s' = 0)"
proof (intro conjI impI)
  show "\<exists>data. ReuseData s = Return data \<and> Reuse data password = Inr (s\<lparr>Status := 0\<rparr>)"
    by (cases s)
       (simp add: ReuseData_def yaml_Marshal_def Reuse_def yaml_Unmarshal_def yamlSetField_def
                  yamlInt_def yamlStr_def)
  show "ReuseData (s\<lparr>Status := st\<rparr>) = ReuseData s"
    by (simp add: ReuseData_def yaml_Marshal_def)
  show "\<exists>kvs. ReuseData s = Return (YMap kvs) \<and>
      map fst kvs = [''id'', ''label'', ''address'', ''image'', ''config'', ''root'', ''swap'']"
    by (simp add: ReuseData_def yaml_Marshal_def)
next
  assume "Reuse d password = Inr s'"
  then show "Status s' = 0"
    by (auto simp: Reuse_def yaml_Unmarshal_def split: sum.splits yaml.splits
             dest: yamlSetFields_Status)
qed

theorem Reuse_of_ReuseData_witness:
  "Reuse (YMap [(''id'', YInt 2), (''status'', YInt 1), (''address'', YStr ''1.2.3.4'')]) ''pw'' =
     Inr ((machine 2 0)\<lparr>linodeServer.Label := [], Addr := ''1.2.3.4''\<rparr>) \<and>
   Status ((machine 2 0)\<lparr>linodeServer.Label := [], Addr := ''1.2.3.4''\<rparr>) = 0"
proof -
  have r: "Reuse (YMap [(''id'', YInt 2), (''status'', YInt 1), (''address'', YStr ''1.2.3.4'')]) ''pw'' =
     Inr ((machine 2 0)\<lparr>linodeServer.Label := [], Addr := ''1.2.3.4''\<rparr>)"
    by code_simp
  from Reuse_of_ReuseData [THEN conjunct2, THEN conjunct2, THEN conjunct2, THEN mp, OF r] r
  show ?thesis by simp
qed

subsection \<open>C9: discarding a server\<close>

lemma Discard_returns:
  assumes "shutdown h s l = (Return r1, l1)"
    and "removeConfig h s (Config s) l1 = (Return err2, l2)"
    and "removeDisks h s [Root s, Swap s] l2 = (Return err3, l3)"
  shows "Discard h s l =
           (Return (firstErr [(case r1 of Inl err1 \<Rightarrow> Some err1 | Inr job \<Rightarrow> None), err2, err3]), l3)"
  using assms by (simp add: Discard_def)

lemma Discard_posts_all:
  assumes "Discard h s l = (Return r, l')"
  shows "sent l' = sent l @
           [[(''api_action'', PStr ''linode.shutdown''), (''LinodeID'', PInt (linodeServer.ID s))],
            removeConfigParams s (Config s), removeDisksParams s [Root s, Swap s]]"
proof -
  from assms obtain r1 l1 e2 l2 e3 where
    a: "shutdown h s l = (Return r1, l1)" and
    b: "removeConfig h s (Config s) l1 = (Return e2, l2)" and
    c: "removeDisks h s [Root s, Swap s] l2 = (Return e3, l')"
    by (auto simp: Discard_def split: prod.splits outcome.splits)
  from sent_serverJob [OF a [unfolded shutdown_def]] sent_removeConfig [OF b] sent_removeDisks [OF c]
  show ?thesis by simp
qed

lemma Discard_empty_message:
  assumes "postJob h [(''api_action'', PStr ''linode.shutdown''), (''LinodeID'', PInt (linodeServer.ID s))]
             (provider l) = (Decoded None r, w)"
    and "Errors r = e # es" and "Message e = []"
  shows "Discard h s l =
           (Panic IndexOutOfRange,
            l\<lparr>sent := sent l @ [[(''api_action'', PStr ''linode.shutdown''),
                                   (''LinodeID'', PInt (linodeServer.ID s))]],
              provider := w\<rparr>)"
  using serverJob_empty_message [OF assms] by (simp add: Discard_def shutdown_def)

text \<open>
  Claim C9. \<^verbatim>\<open>Discard\<close> runs shutdown, removal of the configuration and removal of
  both disks one after the other and returns the first error of the three
  (\<open>Discard_returns\<close>, \<open>Discard_posts_all\<close>) as long as each step returns. A step whose
  response carries an error record with an empty message does not return: the
  normalisation of claim C10 panics (\<open>Discard_empty_message\<close>). The theorem runs two
  scripts. On \<open>teardownEmptyMessage\<close>, with such a response to the shutdown request,
  only that request is posted and \<^verbatim>\<open>Discard\<close> returns no error. On \<open>teardownBusy\<close>,
  with the message "Linode busy" in its place, all three requests are posted and the
  shutdown error is returned.
\<close>

theorem Discard_stops_at_empty_message:
  "fst (Discard scripted installed (start teardownEmptyMessage)) = Panic IndexOutOfRange \<and>
   sent (snd (Discard scripted installed (start teardownEmptyMessage))) =
     [[(''api_action'', PStr ''linode.shutdown''), (''LinodeID'', PInt 2)]] \<and>
   fst (Discard scripted installed (start teardownBusy)) =
     Return (Some (Errorf ''cannot shutdown linode:ubuntu-16.04 (box): linode busy'')) \<and>
   sent (snd (Discard scripted installed (start teardownBusy))) =
     [[(''api_action'', PStr ''linode.shutdown''), (''LinodeID'', PInt 2)],
      removeConfigParams installed 55, removeDisksParams installed [100, 101]]"
  by code_simp

subsection \<open>C10: the provider-error normalisation is partial\<close>

lemma lowerFirst_ascii:
  "(of_char c :: nat) < 128 \<Longrightarrow> lowerFirst c cs = asciiLower c # cs"
  by (simp add: lowerFirst_def string_of_byte_def)

text \<open>
  Claim C10. \<^verbatim>\<open>linodeResult.err\<close> returns, for an envelope whose first error record has a
  non-empty message, the error whose text is that message with
  \<^verbatim>\<open>strings.ToLower(string(Message[0]))\<close> in place of its first byte; when that message
  is empty the index \<^verbatim>\<open>Message[0]\<close> is out of range and the call panics; an envelope
  without error records gives nil. \<^verbatim>\<open>linodeJobInfo.err\<close> tests for the empty message and
  answers a failed job that has none with the text "job N failed silently".
\<close>

theorem linodeResult_err_total_only_on_messages:
  "(Errors r = e # es \<and> Message e = c # cs \<longrightarrow>
      linodeResult_err r = Return (Some (Errorf (strings_ToLower (string_of_byte c) @ cs))))
   \<and> (Errors r = e # es \<and> Message e = [] \<longrightarrow> linodeResult_err r = Panic IndexOutOfRange)
   \<and> (Errors r = [] \<longrightarrow> linodeResult_err r = Return None)
   \<and> (HostSuccess job \<noteq> 1 \<and> HostFinish job \<noteq> [] \<and> HostMessage job = [] \<longrightarrow>
      linodeJobInfo_err job =
        Some (Errorf (''job '' @ strconv_Itoa (linodeJobInfo.JobID job) @ '' failed silently'')))"
  by (simp add: linodeResult_err_def linodeJobInfo_err_def lowerFirst_def)

theorem linodeResult_err_total_only_on_messages_witness:
  "linodeResult_err \<lparr>Errors = [\<lparr>Code = 4, Message = ''Bad key''\<rparr>]\<rparr> = Return (Some (Errorf ''bad key''))
   \<and> linodeResult_err \<lparr>Errors = [\<lparr>Code = 4, Message = ''''\<rparr>]\<rparr> = Panic IndexOutOfRange
   \<and> linodeJobInfo_err \<lparr>linodeJobInfo.JobID = 7, linodeJobInfo.LinodeID = 1, Action = ''boot'', linodeJobInfo.Label = ''b'', HostStart = ''s'',
         HostFinish = ''f'', HostSuccess = 0, HostMessage = ''''\<rparr> = Some (Errorf ''job 7 failed silently'')"
proof -
  have low: "strings_ToLower (string_of_byte CHR ''B'') = ''b''" by code_simp
  have seven: "strconv_Itoa 7 = ''7''" by code_simp
  show ?thesis
    using linodeResult_err_total_only_on_messages
            [of "\<lparr>Errors = [\<lparr>Code = 4, Message = ''Bad key''\<rparr>]\<rparr>" "\<lparr>Code = 4, Message = ''Bad key''\<rparr>"
                "[]" "CHR ''B''" "''ad key''"]
          linodeResult_err_total_only_on_messages
            [of "\<lparr>Errors = [\<lparr>Code = 4, Message = ''''\<rparr>]\<rparr>" "\<lparr>Code = 4, Message = ''''\<rparr>" "[]" _ _
                "\<lparr>linodeJobInfo.JobID = 7, linodeJobInfo.LinodeID = 1, Action = ''boot'', linodeJobInfo.Label = ''b'', HostStart = ''s'',
                  HostFinish = ''f'', HostSuccess = 0, HostMessage = ''''\<rparr>"]
    by (simp add: low seven)
qed

end
